theory Spec2Isabelle
  imports Complex_Main "HOL-Library.Sublist"
begin

section \<open>Data model\<close>

text \<open>
  The repository holds two Express servers over the same collections (users, credentials,
  balances, deposit records and stock quotes; the percentage settings are left out):
  \<^item> \<^verbatim>\<open>server.js\<close>, over PostgreSQL through \<^verbatim>\<open>db.js\<close> (helper functions, raw
    \<^verbatim>\<open>db.query\<close> statements and a \<^verbatim>\<open>collection\<close> adapter that mimics the Firestore
    calls): the relational server, suffix \<open>_sql\<close> below;
  \<^item> \<^verbatim>\<open>functions/index.js\<close>, over Firestore: the document-store server, suffix \<open>_fn\<close>.

  A table or collection is the list of its rows or documents. A JavaScript Number is
  modelled as an exact \<^typ>\<open>real\<close>: IEEE rounding is not modelled. A request field that
  the handler reads through \<^verbatim>\<open>Number(x)\<close> is a \<^typ>\<open>real option\<close>, \<open>None\<close> when
  \<^verbatim>\<open>Number.isFinite(Number(x))\<close> is false; every handler tests that before any other
  use of the value. A request field that is a string is a \<^typ>\<open>string option\<close>,
  \<open>None\<close> when the field is absent. Timestamps (\<^verbatim>\<open>Date.now()\<close>, an ISO string in
  \<^verbatim>\<open>server.js\<close>) are integers, and the generated uid, the clock and the hash function
  of \<^verbatim>\<open>crypto\<close> are parameters of the handlers.
\<close>

record user =
  u_uid :: string
  u_email :: "string option"
  u_name :: "string option"
  u_created_at :: int

record auth =
  a_uid :: string
  a_email :: string
  a_password_hash :: string
  a_created_at :: int

record balance =
  b_uid :: string
  balance_usd :: real
  wallet_balance_usd :: real
  b_updated_at :: int

record deposit =
  d_id :: nat
  d_uid :: string
  amount_usd :: real
  d_note :: "string option"
  d_created_at :: int

record stock =
  company :: string
  current_price :: real
  percentage_change :: real
  direction :: string
  s_updated_at :: int

record store =
  users :: "user list"
  user_auth :: "auth list"
  balances :: "balance list"
  deposits :: "deposit list"
  stocks :: "stock list"
  next_deposit_id :: nat

text \<open>The response profile \<^verbatim>\<open>{...user, balance_usd, wallet_balance_usd}\<close>; the user
  fields are absent when the spread value is \<^verbatim>\<open>null\<close> or \<^verbatim>\<open>undefined\<close>.\<close>

record profile =
  p_user :: "user option"
  p_balance_usd :: real
  p_wallet_balance_usd :: real

text \<open>The failure tags of the specification. Each handler below notes the HTTP status
  and the \<^verbatim>\<open>error\<close> string it stands for; \<open>StoreFailure\<close> is the \<^verbatim>\<open>catch\<close> branch
  (500 \<^verbatim>\<open>internal_error\<close>).\<close>

datatype failure =
  InvalidInput | EmailExists | NotFound | UserNotFound | InvalidCredentials
  | InsufficientHomeBalance | InsufficientGasBalance | Unauthorized | StoreFailure

section \<open>Handlers as store transformers\<close>

text \<open>A handler step reads and writes the store and either yields a value or ends the
  request with a failure; writes made before the failure stay (no transaction spans a
  handler).\<close>

type_synonym 'a io = "store \<Rightarrow> (failure + 'a) \<times> store"

definition return_io :: "'a \<Rightarrow> 'a io" where
  "return_io a s = (Inr a, s)"

definition fail_io :: "failure \<Rightarrow> 'a io" where
  "fail_io e s = (Inl e, s)"

definition bind_io :: "'a io \<Rightarrow> ('a \<Rightarrow> 'b io) \<Rightarrow> 'b io" where
  "bind_io m f s = (case m s of (Inl e, s') \<Rightarrow> (Inl e, s') | (Inr a, s') \<Rightarrow> f a s')"

text \<open>\<^verbatim>\<open>!x\<close> on a string field: absent or empty.\<close>

definition falsy :: "string option \<Rightarrow> bool" where
  "falsy x = (case x of None \<Rightarrow> True | Some v \<Rightarrow> v = [])"

text \<open>\<^verbatim>\<open>x || 0\<close> on a number.\<close>

definition or0 :: "real \<Rightarrow> real" where
  "or0 x = (if x = 0 then 0 else x)"

subsection \<open>Field values of an update\<close>

text \<open>\<^verbatim>\<open>FieldValue.increment(n)\<close> in Firestore, the marker \<^verbatim>\<open>{ __increment: n }\<close> in
  \<^verbatim>\<open>db.js\<close>, or a plain value.\<close>

datatype fieldval = Increment real | Plain real

definition apply_fieldval :: "fieldval option \<Rightarrow> real \<Rightarrow> real" where
  "apply_fieldval fv old =
     (case fv of None \<Rightarrow> old | Some (Increment d) \<Rightarrow> old + d | Some (Plain v) \<Rightarrow> v)"

record balance_patch =
  patch_wallet_balance_usd :: "fieldval option"
  patch_balance_usd :: "fieldval option"
  patch_updated_at :: int

definition patch_row :: "balance_patch \<Rightarrow> balance \<Rightarrow> balance" where
  "patch_row p b =
     b\<lparr>wallet_balance_usd := apply_fieldval (patch_wallet_balance_usd p) (wallet_balance_usd b),
       balance_usd := apply_fieldval (patch_balance_usd p) (balance_usd b),
       b_updated_at := patch_updated_at p\<rparr>"

definition update_rows :: "string \<Rightarrow> balance_patch \<Rightarrow> balance list \<Rightarrow> balance list" where
  "update_rows uid p bs = map (\<lambda>b. if b_uid b = uid then patch_row p b else b) bs"

subsection \<open>The draft of a deposit record and the profile\<close>

record deposit_data =
  dd_uid :: string
  dd_amount_usd :: real
  dd_note :: "string option"
  dd_created_at :: int

definition insert_deposit :: "deposit_data \<Rightarrow> store \<Rightarrow> store" where
  "insert_deposit d s =
     s\<lparr>deposits := deposits s @
          [\<lparr>d_id = next_deposit_id s, d_uid = dd_uid d, amount_usd = dd_amount_usd d,
            d_note = dd_note d, d_created_at = dd_created_at d\<rparr>],
       next_deposit_id := Suc (next_deposit_id s)\<rparr>"

definition lookup_balance :: "string \<Rightarrow> store \<Rightarrow> balance option" where
  "lookup_balance uid s = find (\<lambda>b. b_uid b = uid) (balances s)"

definition lookup_user :: "string \<Rightarrow> store \<Rightarrow> user option" where
  "lookup_user uid s = find (\<lambda>u. u_uid u = uid) (users s)"

text \<open>The \<^verbatim>\<open>effectiveHome\<close> expression of both withdraw handlers.\<close>

definition effectiveHome :: "real \<Rightarrow> real option \<Rightarrow> real" where
  "effectiveHome home_bal displayedUsd =
     (case displayedUsd of
        None \<Rightarrow> home_bal
      | Some d \<Rightarrow> if d > home_bal then d else home_bal)"

section \<open>The document-store server (functions/index.js)\<close>

definition fs_balance_get :: "string \<Rightarrow> balance option io" where
  "fs_balance_get uid s = (Inr (lookup_balance uid s), s)"

text \<open>Firestore's \<^verbatim>\<open>update\<close> rejects a document that does not exist.\<close>

definition fs_balance_update :: "string \<Rightarrow> balance_patch \<Rightarrow> unit io" where
  "fs_balance_update uid p s =
     (case lookup_balance uid s of
        None \<Rightarrow> (Inl StoreFailure, s)
      | Some _ \<Rightarrow> (Inr (), s\<lparr>balances := update_rows uid p (balances s)\<rparr>))"

definition fs_deposit_add :: "deposit_data \<Rightarrow> unit io" where
  "fs_deposit_add d s = (Inr (), insert_deposit d s)"

definition fs_user_get :: "string \<Rightarrow> user option io" where
  "fs_user_get uid s = (Inr (lookup_user uid s), s)"

record withdraw_req =
  w_uid :: "string option"
  w_amountUsd :: "real option"
  w_gasUsd :: "real option"
  w_displayedUsd :: "real option"

text \<open>The two \<^verbatim>\<open>update\<close> objects and the two ledger entries of the withdraw handlers.\<close>

definition bump_patch :: "real \<Rightarrow> int \<Rightarrow> balance_patch" where
  "bump_patch bump now =
     \<lparr>patch_wallet_balance_usd = Some (Increment bump), patch_balance_usd = None,
      patch_updated_at = now\<rparr>"

definition deduct_patch :: "real \<Rightarrow> real \<Rightarrow> balance \<Rightarrow> int \<Rightarrow> balance_patch" where
  "deduct_patch amount gas balanceData now =
     \<lparr>patch_wallet_balance_usd = Some (Increment (- amount)),
      patch_balance_usd =
        Some (if gas > 0 then Increment (- gas) else Plain (balance_usd balanceData)),
      patch_updated_at = now\<rparr>"

definition withdraw_entry :: "string \<Rightarrow> real \<Rightarrow> int \<Rightarrow> deposit_data" where
  "withdraw_entry uid amount now =
     \<lparr>dd_uid = uid, dd_amount_usd = - amount, dd_note = Some ''withdraw'', dd_created_at = now\<rparr>"

definition gas_fee_entry :: "string \<Rightarrow> real \<Rightarrow> int \<Rightarrow> deposit_data" where
  "gas_fee_entry uid gas now =
     \<lparr>dd_uid = uid, dd_amount_usd = - gas, dd_note = Some ''gas_fee'', dd_created_at = now\<rparr>"

text \<open>The part of the handler after the balance document was read; it is the same text
  in both servers, over the server's own store operations.\<close>

definition withdraw_body ::
  "(string \<Rightarrow> balance_patch \<Rightarrow> unit io) \<Rightarrow> (deposit_data \<Rightarrow> unit io) \<Rightarrow>
   (string \<Rightarrow> user option io) \<Rightarrow> (string \<Rightarrow> balance option io) \<Rightarrow>
   string \<Rightarrow> real \<Rightarrow> real \<Rightarrow> real option \<Rightarrow> int \<Rightarrow> balance \<Rightarrow> profile io" where
  "withdraw_body upd add uget bget uid amount gas displayedUsd now balanceData =
     (let gas_bal = or0 (balance_usd balanceData);
          home_bal = or0 (wallet_balance_usd balanceData);
          eff = effectiveHome home_bal displayedUsd
      in if eff < amount then fail_io InsufficientHomeBalance
         else if gas_bal < gas then fail_io InsufficientGasBalance
         else
           bind_io (if eff > home_bal then upd uid (bump_patch (eff - home_bal) now)
                    else return_io ()) (\<lambda>_.
           bind_io (upd uid (deduct_patch amount gas balanceData now)) (\<lambda>_.
           bind_io (add (withdraw_entry uid amount now)) (\<lambda>_.
           bind_io (if gas > 0 then add (gas_fee_entry uid gas now) else return_io ()) (\<lambda>_.
           bind_io (uget uid) (\<lambda>userDoc.
           bind_io (bget uid) (\<lambda>updatedBalanceDoc.
             case updatedBalanceDoc of
               None \<Rightarrow> fail_io StoreFailure
             | Some updatedBalance \<Rightarrow>
                 return_io \<lparr>p_user = userDoc,
                   p_balance_usd = or0 (balance_usd updatedBalance),
                   p_wallet_balance_usd = or0 (wallet_balance_usd updatedBalance)\<rparr>)))))))"

text \<open>\<^verbatim>\<open>app.post('/withdraw')\<close>: 400 \<^verbatim>\<open>invalid_params\<close>, 404 \<^verbatim>\<open>user_not_found\<close>,
  400 \<^verbatim>\<open>insufficient_home_balance\<close>, 400 \<^verbatim>\<open>insufficient_gas_balance\<close>. The handler
  reads no \<^verbatim>\<open>x-admin-key\<close> header, so it has no key argument.\<close>

definition withdraw_fn :: "withdraw_req \<Rightarrow> int \<Rightarrow> profile io" where
  "withdraw_fn rq now =
     (case (w_uid rq, w_amountUsd rq, w_gasUsd rq) of
        (Some uid, Some amount, Some gas) \<Rightarrow>
          if uid = [] \<or> amount \<le> 0 \<or> gas < 0 then fail_io InvalidInput
          else bind_io (fs_balance_get uid) (\<lambda>balanceDoc.
                 case balanceDoc of
                   None \<Rightarrow> fail_io UserNotFound
                 | Some balanceData \<Rightarrow>
                     withdraw_body fs_balance_update fs_deposit_add fs_user_get fs_balance_get
                       uid amount gas (w_displayedUsd rq) now balanceData)
      | _ \<Rightarrow> fail_io InvalidInput)"

section \<open>The relational server (server.js over db.js)\<close>

subsection \<open>The schema\<close>

text \<open>The tables and columns that \<^verbatim>\<open>initDb\<close> of \<^verbatim>\<open>db.js\<close> creates, in its order.
  It is the only schema of the repository that has the tables \<^verbatim>\<open>stocks\<close> and
  \<^verbatim>\<open>user_percentages\<close> (\<^verbatim>\<open>db_schema.sql\<close> has the first four tables, with the same
  columns).\<close>

definition initDb_schema :: "(string \<times> string list) list" where
  "initDb_schema =
     [(''users'', [''uid'', ''email'', ''name'', ''created_at'']),
      (''user_auth'', [''uid'', ''email'', ''password_hash'', ''created_at'']),
      (''balances'', [''uid'', ''balance_usd'', ''wallet_balance_usd'', ''updated_at'']),
      (''deposits'', [''id'', ''uid'', ''amount_usd'', ''note'', ''created_at'']),
      (''stocks'', [''id'', ''symbol'', ''name'', ''data'', ''created_at'']),
      (''user_percentages'', [''uid'', ''percentages'', ''updated_at''])]"

text \<open>PostgreSQL rejects a statement that names a table or a column that does not
  exist; \<^verbatim>\<open>pool.query\<close> then throws, and the handler's \<^verbatim>\<open>catch\<close> answers 500.\<close>

definition query_ok :: "string \<Rightarrow> string list \<Rightarrow> bool" where
  "query_ok table cols =
     (case map_of initDb_schema table of
        None \<Rightarrow> False
      | Some tcols \<Rightarrow> list_all (\<lambda>c. c \<in> set tcols) cols)"

text \<open>\<^verbatim>\<open>query(text, params)\<close>: the statement names \<open>table\<close> and \<open>cols\<close>, and \<open>run\<close> is
  its effect on the rows.\<close>

definition query :: "string \<Rightarrow> string list \<Rightarrow> (store \<Rightarrow> 'a \<times> store) \<Rightarrow> 'a io" where
  "query table cols run s =
     (if query_ok table cols then (case run s of (a, s') \<Rightarrow> (Inr a, s'))
      else (Inl StoreFailure, s))"

subsection \<open>The collection adapter of db.js\<close>

text \<open>\<^verbatim>\<open>collection('balances').doc(uid).get()\<close>:
  \<^verbatim>\<open>SELECT * FROM balances WHERE uid = $1 LIMIT 1\<close>.\<close>

definition sql_balance_get :: "string \<Rightarrow> balance option io" where
  "sql_balance_get uid = query ''balances'' [''uid''] (\<lambda>s. (lookup_balance uid s, s))"

definition patch_cols :: "balance_patch \<Rightarrow> string list" where
  "patch_cols p =
     (case patch_wallet_balance_usd p of None \<Rightarrow> [] | Some _ \<Rightarrow> [''wallet_balance_usd'']) @
     (case patch_balance_usd p of None \<Rightarrow> [] | Some _ \<Rightarrow> [''balance_usd'']) @
     [''updated_at'']"

text \<open>\<^verbatim>\<open>doc(uid).update(patch)\<close>: \<^verbatim>\<open>UPDATE balances SET k = k + $i, ... WHERE uid = $n\<close>;
  no row matching is no error.\<close>

definition sql_balance_update :: "string \<Rightarrow> balance_patch \<Rightarrow> unit io" where
  "sql_balance_update uid p =
     query ''balances'' (patch_cols p @ [''uid''])
       (\<lambda>s. ((), s\<lparr>balances := update_rows uid p (balances s)\<rparr>))"

text \<open>\<^verbatim>\<open>collection('deposits').add(data)\<close>: \<^verbatim>\<open>INSERT INTO deposits(uid, amount_usd, note,
  created_at) ... RETURNING id\<close>, the note being \<^verbatim>\<open>data.note || null\<close>.\<close>

definition sql_deposit_add :: "deposit_data \<Rightarrow> unit io" where
  "sql_deposit_add d =
     query ''deposits'' [''uid'', ''amount_usd'', ''note'', ''created_at'', ''id'']
       (\<lambda>s. ((), insert_deposit (d\<lparr>dd_note := (if falsy (dd_note d) then None else dd_note d)\<rparr>) s))"

definition sql_user_get :: "string \<Rightarrow> user option io" where
  "sql_user_get uid = query ''users'' [''uid''] (\<lambda>s. (lookup_user uid s, s))"

text \<open>\<^verbatim>\<open>app.post('/api/withdraw')\<close>, with the same answers as the document-store server.\<close>

definition withdraw_sql :: "withdraw_req \<Rightarrow> int \<Rightarrow> profile io" where
  "withdraw_sql rq now =
     (case (w_uid rq, w_amountUsd rq, w_gasUsd rq) of
        (Some uid, Some amount, Some gas) \<Rightarrow>
          if uid = [] \<or> amount \<le> 0 \<or> gas < 0 then fail_io InvalidInput
          else bind_io (sql_balance_get uid) (\<lambda>balanceDoc.
                 case balanceDoc of
                   None \<Rightarrow> fail_io UserNotFound
                 | Some balanceData \<Rightarrow>
                     withdraw_body sql_balance_update sql_deposit_add sql_user_get
                       sql_balance_get uid amount gas (w_displayedUsd rq) now balanceData)
      | _ \<Rightarrow> fail_io InvalidInput)"

section \<open>Signup and login\<close>

record signup_req =
  s_email :: "string option"
  s_name :: "string option"
  s_password :: "string option"

record login_req =
  l_email :: "string option"
  l_password :: "string option"

text \<open>\<^verbatim>\<open>name || null\<close>.\<close>

definition or_null :: "string option \<Rightarrow> string option" where
  "or_null x = (if falsy x then None else x)"

text \<open>An insert that meets a row with the same key changes that row by \<open>on_conflict\<close>
  and adds none: \<^verbatim>\<open>INSERT ... ON CONFLICT (key) DO UPDATE SET ...\<close> in SQL, and
  \<^verbatim>\<open>doc(key).set(data)\<close> in Firestore, where the new document replaces the old one.\<close>

definition upsert :: "('a \<Rightarrow> bool) \<Rightarrow> ('a \<Rightarrow> 'a) \<Rightarrow> 'a \<Rightarrow> 'a list \<Rightarrow> 'a list" where
  "upsert is_key on_conflict new rows =
     (if list_ex is_key rows then map (\<lambda>r. if is_key r then on_conflict r else r) rows
      else rows @ [new])"

subsection \<open>The relational server: the functions of db.js\<close>

text \<open>\<^verbatim>\<open>SELECT * FROM user_auth WHERE email = $1 LIMIT 1\<close>; the list order stands for the
  order in which the engine meets the rows.\<close>

definition findAuthByEmail :: "string \<Rightarrow> auth option io" where
  "findAuthByEmail email =
     query ''user_auth'' [''email''] (\<lambda>s. (find (\<lambda>a. a_email a = email) (user_auth s), s))"

text \<open>\<^verbatim>\<open>ON CONFLICT (uid) DO UPDATE SET email = EXCLUDED.email, name = EXCLUDED.name\<close>.\<close>

definition createUserRecord :: "user \<Rightarrow> unit io" where
  "createUserRecord u =
     query ''users'' [''uid'', ''email'', ''name'', ''created_at'']
       (\<lambda>s. ((), s\<lparr>users := upsert (\<lambda>r. u_uid r = u_uid u)
                                 (\<lambda>r. r\<lparr>u_email := u_email u, u_name := u_name u\<rparr>) u (users s)\<rparr>))"

text \<open>\<^verbatim>\<open>ON CONFLICT (uid) DO UPDATE SET email = EXCLUDED.email, password_hash =
  EXCLUDED.password_hash\<close>.\<close>

definition createAuthRecord :: "auth \<Rightarrow> unit io" where
  "createAuthRecord a =
     query ''user_auth'' [''uid'', ''email'', ''password_hash'', ''created_at'']
       (\<lambda>s. ((), s\<lparr>user_auth := upsert (\<lambda>r. a_uid r = a_uid a)
                    (\<lambda>r. r\<lparr>a_email := a_email a, a_password_hash := a_password_hash a\<rparr>)
                    a (user_auth s)\<rparr>))"

text \<open>\<^verbatim>\<open>ON CONFLICT (uid) DO UPDATE SET\<close> every column but \<^verbatim>\<open>uid\<close>.\<close>

definition upsertBalance :: "balance \<Rightarrow> unit io" where
  "upsertBalance b =
     query ''balances'' [''uid'', ''balance_usd'', ''wallet_balance_usd'', ''updated_at'']
       (\<lambda>s. ((), s\<lparr>balances := upsert (\<lambda>r. b_uid r = b_uid b) (\<lambda>r. b) b (balances s)\<rparr>))"

definition addDeposit :: "deposit_data \<Rightarrow> unit io" where
  "addDeposit d =
     query ''deposits'' [''uid'', ''amount_usd'', ''note'', ''created_at'', ''id'']
       (\<lambda>s. ((), insert_deposit d s))"

definition getBalance :: "string \<Rightarrow> balance option io" where
  "getBalance uid = query ''balances'' [''uid''] (\<lambda>s. (lookup_balance uid s, s))"

definition getUserProfile :: "string \<Rightarrow> profile option io" where
  "getUserProfile uid =
     bind_io (query ''users'' [''uid''] (\<lambda>s. (lookup_user uid s, s))) (\<lambda>user.
       case user of
         None \<Rightarrow> return_io None
       | Some u \<Rightarrow>
           bind_io (getBalance uid) (\<lambda>balance.
             return_io (Some \<lparr>p_user = Some u,
               p_balance_usd = (case balance of None \<Rightarrow> 0 | Some b \<Rightarrow> balance_usd b),
               p_wallet_balance_usd =
                 (case balance of None \<Rightarrow> 0 | Some b \<Rightarrow> wallet_balance_usd b)\<rparr>)))"

text \<open>\<^verbatim>\<open>app.post('/api/signup')\<close>: 400 \<^verbatim>\<open>invalid_input\<close>, 409 \<^verbatim>\<open>email_exists\<close>.
  \<open>hashPassword\<close> is the SHA-256 of \<^verbatim>\<open>crypto\<close>, and \<open>uid\<close> the identifier the handler
  draws from \<^verbatim>\<open>Math.random()\<close> and \<^verbatim>\<open>Date.now()\<close>. The welcome mail is sent aside and
  its failure is only logged.\<close>

definition signup_sql ::
  "(string \<Rightarrow> string) \<Rightarrow> signup_req \<Rightarrow> string \<Rightarrow> int \<Rightarrow> profile option io" where
  "signup_sql hashPassword rq uid now =
     (case (s_email rq, s_password rq) of
        (Some email, Some password) \<Rightarrow>
          if email = [] \<or> password = [] \<or> length password < 6 then fail_io InvalidInput
          else
            bind_io (findAuthByEmail email) (\<lambda>existingAuth.
              case existingAuth of
                Some _ \<Rightarrow> fail_io EmailExists
              | None \<Rightarrow>
                  bind_io (createUserRecord \<lparr>u_uid = uid, u_email = Some email,
                             u_name = or_null (s_name rq), u_created_at = now\<rparr>) (\<lambda>_.
                  bind_io (createAuthRecord \<lparr>a_uid = uid, a_email = email,
                             a_password_hash = hashPassword password, a_created_at = now\<rparr>) (\<lambda>_.
                  bind_io (upsertBalance \<lparr>b_uid = uid, balance_usd = 0, wallet_balance_usd = 0,
                             b_updated_at = now\<rparr>) (\<lambda>_.
                  bind_io (addDeposit \<lparr>dd_uid = uid, dd_amount_usd = 0,
                             dd_note = Some ''default'', dd_created_at = now\<rparr>) (\<lambda>_.
                  getUserProfile uid)))))
      | _ \<Rightarrow> fail_io InvalidInput)"

text \<open>\<^verbatim>\<open>app.post('/api/login')\<close>: 400 \<^verbatim>\<open>invalid_input\<close>, 404 \<^verbatim>\<open>not_found\<close>,
  401 \<^verbatim>\<open>invalid_credentials\<close>.\<close>

definition login_sql :: "(string \<Rightarrow> string) \<Rightarrow> login_req \<Rightarrow> profile option io" where
  "login_sql hashPassword rq =
     (case (l_email rq, l_password rq) of
        (Some email, Some password) \<Rightarrow>
          if email = [] \<or> password = [] then fail_io InvalidInput
          else
            bind_io (findAuthByEmail email) (\<lambda>auth.
              case auth of
                None \<Rightarrow> fail_io NotFound
              | Some a \<Rightarrow>
                  if a_password_hash a \<noteq> hashPassword password then fail_io InvalidCredentials
                  else getUserProfile (a_uid a))
      | _ \<Rightarrow> fail_io InvalidInput)"

subsection \<open>The document-store server\<close>

text \<open>\<^verbatim>\<open>collection('user_auth').where('email', '==', email).limit(1).get()\<close>.\<close>

definition fs_auth_by_email :: "string \<Rightarrow> auth option io" where
  "fs_auth_by_email email s = (Inr (find (\<lambda>a. a_email a = email) (user_auth s)), s)"

definition fs_user_set :: "user \<Rightarrow> unit io" where
  "fs_user_set u s =
     (Inr (), s\<lparr>users := upsert (\<lambda>r. u_uid r = u_uid u) (\<lambda>r. u) u (users s)\<rparr>)"

definition fs_auth_set :: "auth \<Rightarrow> unit io" where
  "fs_auth_set a s =
     (Inr (), s\<lparr>user_auth := upsert (\<lambda>r. a_uid r = a_uid a) (\<lambda>r. a) a (user_auth s)\<rparr>)"

definition fs_balance_set :: "balance \<Rightarrow> unit io" where
  "fs_balance_set b s =
     (Inr (), s\<lparr>balances := upsert (\<lambda>r. b_uid r = b_uid b) (\<lambda>r. b) b (balances s)\<rparr>)"

text \<open>The profile that the handlers of \<^verbatim>\<open>functions/index.js\<close> assemble inline.\<close>

definition fs_profile :: "string \<Rightarrow> profile io" where
  "fs_profile uid =
     bind_io (fs_user_get uid) (\<lambda>userDoc.
     bind_io (fs_balance_get uid) (\<lambda>balanceDoc.
       return_io \<lparr>p_user = userDoc,
         p_balance_usd = or0 (case balanceDoc of None \<Rightarrow> 0 | Some b \<Rightarrow> balance_usd b),
         p_wallet_balance_usd =
           or0 (case balanceDoc of None \<Rightarrow> 0 | Some b \<Rightarrow> wallet_balance_usd b)\<rparr>))"

text \<open>\<^verbatim>\<open>app.post('/signup')\<close>: 400 \<^verbatim>\<open>email_and_password_required_min_6_chars\<close>,
  400 \<^verbatim>\<open>email_already_registered\<close>.\<close>

definition signup_fn ::
  "(string \<Rightarrow> string) \<Rightarrow> signup_req \<Rightarrow> string \<Rightarrow> int \<Rightarrow> profile option io" where
  "signup_fn hashPassword rq uid now =
     (case (s_email rq, s_password rq) of
        (Some email, Some password) \<Rightarrow>
          if email = [] \<or> password = [] \<or> length password < 6 then fail_io InvalidInput
          else
            bind_io (fs_auth_by_email email) (\<lambda>existingUser.
              case existingUser of
                Some _ \<Rightarrow> fail_io EmailExists
              | None \<Rightarrow>
                  bind_io (fs_user_set \<lparr>u_uid = uid, u_email = Some email,
                             u_name = or_null (s_name rq), u_created_at = now\<rparr>) (\<lambda>_.
                  bind_io (fs_auth_set \<lparr>a_uid = uid, a_email = email,
                             a_password_hash = hashPassword password, a_created_at = now\<rparr>) (\<lambda>_.
                  bind_io (fs_balance_set \<lparr>b_uid = uid, balance_usd = 0, wallet_balance_usd = 0,
                             b_updated_at = now\<rparr>) (\<lambda>_.
                  bind_io (fs_deposit_add \<lparr>dd_uid = uid, dd_amount_usd = 0,
                             dd_note = Some ''default'', dd_created_at = now\<rparr>) (\<lambda>_.
                  bind_io (fs_profile uid) (\<lambda>profile. return_io (Some profile)))))))
      | _ \<Rightarrow> fail_io InvalidInput)"

text \<open>\<^verbatim>\<open>app.post('/login')\<close>: 400 \<^verbatim>\<open>email_and_password_required\<close>, and
  401 \<^verbatim>\<open>invalid_credentials\<close> both for an unknown email and for a wrong password.\<close>

definition login_fn :: "(string \<Rightarrow> string) \<Rightarrow> login_req \<Rightarrow> profile option io" where
  "login_fn hashPassword rq =
     (case (l_email rq, l_password rq) of
        (Some email, Some password) \<Rightarrow>
          if email = [] \<or> password = [] then fail_io InvalidInput
          else
            bind_io (fs_auth_by_email email) (\<lambda>authDoc.
              case authDoc of
                None \<Rightarrow> fail_io InvalidCredentials
              | Some authData \<Rightarrow>
                  if a_password_hash authData \<noteq> hashPassword password
                  then fail_io InvalidCredentials
                  else bind_io (fs_profile (a_uid authData)) (\<lambda>profile.
                         return_io (Some profile)))
      | _ \<Rightarrow> fail_io InvalidInput)"

section \<open>Listing a user's deposit records\<close>

text \<open>SQL's \<^verbatim>\<open>LIKE\<close>, the pattern first: \<^verbatim>\<open>%\<close> stands for any run of characters and
  \<^verbatim>\<open>_\<close> for any one character (the patterns of the source have no escape character).\<close>

fun sql_like :: "string \<Rightarrow> string \<Rightarrow> bool" where
  "sql_like [] s = (s = [])"
| "sql_like (c # p) s =
     (if c = CHR ''%''
      then sql_like p s \<or> (case s of [] \<Rightarrow> False | _ # s' \<Rightarrow> sql_like (c # p) s')
      else (case s of [] \<Rightarrow> False | x # s' \<Rightarrow> (c = CHR ''_'' \<or> c = x) \<and> sql_like p s'))"

text \<open>\<^verbatim>\<open>note NOT LIKE pattern\<close> as a \<^verbatim>\<open>WHERE\<close> condition: a \<^verbatim>\<open>NULL\<close> note makes it
  \<^verbatim>\<open>NULL\<close>, and the row is left out.\<close>

definition not_like :: "string option \<Rightarrow> string \<Rightarrow> bool" where
  "not_like v pattern = (case v of None \<Rightarrow> False | Some x \<Rightarrow> \<not> sql_like pattern x)"

text \<open>\<^verbatim>\<open>ORDER BY created_at DESC LIMIT n\<close>, and \<^verbatim>\<open>orderBy('created_at', 'desc').limit(n)\<close>;
  rows with the same \<^verbatim>\<open>created_at\<close> stay in list order.\<close>

definition order_desc_limit :: "nat \<Rightarrow> deposit list \<Rightarrow> deposit list" where
  "order_desc_limit n ds = take n (sort_key (\<lambda>d. - d_created_at d) ds)"

text \<open>\<^verbatim>\<open>app.get('/api/deposits/:uid')\<close> of \<^verbatim>\<open>server.js\<close>: 400 \<^verbatim>\<open>uid_required\<close>.\<close>

definition list_deposits_sql :: "string \<Rightarrow> deposit list io" where
  "list_deposits_sql uid =
     (if uid = [] then fail_io InvalidInput
      else query ''deposits'' [''id'', ''uid'', ''amount_usd'', ''note'', ''created_at'']
             (\<lambda>s. (order_desc_limit 20
                      (filter (\<lambda>d. d_uid d = uid
                                  \<and> not_like (d_note d) ''deposit_attempt_%''
                                  \<and> not_like (d_note d) ''gas_fee_attempt_%'')
                         (deposits s)), s)))"

text \<open>\<^verbatim>\<open>app.get('/deposits/:uid')\<close> of \<^verbatim>\<open>functions/index.js\<close>: the query has no
  condition on the note.\<close>

definition list_deposits_fn :: "string \<Rightarrow> deposit list io" where
  "list_deposits_fn uid s =
     (if uid = [] then (Inl InvalidInput, s)
      else (Inr (order_desc_limit 20 (filter (\<lambda>d. d_uid d = uid) (deposits s))), s))"

section \<open>The stock update\<close>

record stock_req =
  st_company :: "string option"
  st_currentPrice :: "real option"
  st_percentage :: "real option"
  st_direction :: "string option"

text \<open>\<^verbatim>\<open>x.toFixed(2)\<close>, as the number that the string shows: the multiple of 1/100 nearest
  to \<open>x\<close>, the larger one of two that are equally near.\<close>

definition toFixed2 :: "real \<Rightarrow> real" where
  "toFixed2 x = of_int \<lfloor>x * 100 + 1 / 2\<rfloor> / 100"

text \<open>\<^verbatim>\<open>price * multiplier\<close>, the multiplier being \<^verbatim>\<open>1 + pct / 100\<close> for \<^verbatim>\<open>up\<close> and
  \<^verbatim>\<open>1 - pct / 100\<close> otherwise.\<close>

definition newPrice :: "real \<Rightarrow> real \<Rightarrow> string \<Rightarrow> real" where
  "newPrice price pct dir =
     price * (if dir = ''up'' then 1 + pct / 100 else 1 - pct / 100)"

text \<open>The effect on the rows of \<^verbatim>\<open>INSERT INTO stocks ... ON CONFLICT (company) DO UPDATE
  SET\<close> every other column, and of \<^verbatim>\<open>doc(company).set(...)\<close>.\<close>

definition stock_upsert :: "stock \<Rightarrow> store \<Rightarrow> unit \<times> store" where
  "stock_upsert q s =
     ((), s\<lparr>stocks := upsert (\<lambda>r. company r = company q) (\<lambda>r. q) q (stocks s)\<rparr>)"

text \<open>The parameter checks of both handlers: 400 \<^verbatim>\<open>invalid_params\<close>, then
  400 \<^verbatim>\<open>invalid_direction\<close>.\<close>

definition stocks_update_validate :: "stock_req \<Rightarrow> failure + (string \<times> real \<times> real \<times> string)" where
  "stocks_update_validate rq =
     (case (st_company rq, st_currentPrice rq, st_percentage rq, st_direction rq) of
        (Some name, Some price, Some pct, Some dir) \<Rightarrow>
          if name = [] \<or> price \<le> 0 \<or> pct < 0 \<or> dir = [] then Inl InvalidInput
          else if dir \<in> set [''up'', ''down''] then Inr (name, price, pct, dir)
          else Inl InvalidInput
      | _ \<Rightarrow> Inl InvalidInput)"

text \<open>\<^verbatim>\<open>app.post('/api/stocks/update-percentage')\<close> of \<^verbatim>\<open>server.js\<close>:
  401 \<^verbatim>\<open>unauthorized\<close> unless the \<^verbatim>\<open>x-admin-key\<close> header is the configured key; the
  statement names the columns \<^verbatim>\<open>company, current_price, percentage_change, direction,
  updated_at\<close> of the table \<^verbatim>\<open>stocks\<close>. The answer carries \<^verbatim>\<open>newPrice.toFixed(2)\<close>.\<close>

definition stocks_update_sql :: "string \<Rightarrow> string option \<Rightarrow> stock_req \<Rightarrow> int \<Rightarrow> real io" where
  "stocks_update_sql ADMIN_KEY key rq now =
     (if key = Some ADMIN_KEY
      then (case stocks_update_validate rq of
              Inl e \<Rightarrow> fail_io e
            | Inr (name, price, pct, dir) \<Rightarrow>
                bind_io (query ''stocks''
                           [''company'', ''current_price'', ''percentage_change'', ''direction'',
                            ''updated_at'']
                           (stock_upsert \<lparr>company = name,
                              current_price = newPrice price pct dir,
                              percentage_change = pct, direction = dir,
                              s_updated_at = now\<rparr>)) (\<lambda>_.
                return_io (toFixed2 (newPrice price pct dir))))
      else fail_io Unauthorized)"

text \<open>\<^verbatim>\<open>app.post('/stocks/update-percentage')\<close> of \<^verbatim>\<open>functions/index.js\<close>.\<close>

definition stocks_update_fn :: "string \<Rightarrow> string option \<Rightarrow> stock_req \<Rightarrow> int \<Rightarrow> real io" where
  "stocks_update_fn ADMIN_KEY key rq now =
     (if key = Some ADMIN_KEY
      then (case stocks_update_validate rq of
              Inl e \<Rightarrow> fail_io e
            | Inr (name, price, pct, dir) \<Rightarrow>
                bind_io (\<lambda>s. case stock_upsert \<lparr>company = name,
                              current_price = newPrice price pct dir,
                              percentage_change = pct, direction = dir,
                              s_updated_at = now\<rparr> s of (a, s') \<Rightarrow> (Inr a, s')) (\<lambda>_.
                return_io (toFixed2 (newPrice price pct dir))))
      else fail_io Unauthorized)"

section \<open>Closed forms used in the proofs\<close>

text \<open>The store after the writes of a withdraw that passed its checks, in the order the
  handler makes them: the bump, the deduction, the \<^verbatim>\<open>withdraw\<close> entry and the
  \<^verbatim>\<open>gas_fee\<close> entry.\<close>

definition withdraw_store :: "string \<Rightarrow> real \<Rightarrow> real \<Rightarrow> real \<Rightarrow> int \<Rightarrow> balance \<Rightarrow> store \<Rightarrow> store" where
  "withdraw_store uid amount gas eff now bd s =
     (let s1 = (if eff > wallet_balance_usd bd
                then s\<lparr>balances := update_rows uid (bump_patch (eff - wallet_balance_usd bd) now) (balances s)\<rparr>
                else s);
          s2 = s1\<lparr>balances := update_rows uid (deduct_patch amount gas bd now) (balances s1)\<rparr>;
          s3 = insert_deposit (withdraw_entry uid amount now) s2
      in if gas > 0 then insert_deposit (gas_fee_entry uid gas now) s3 else s3)"

section \<open>Example data\<close>

text \<open>A store with the single user \<^verbatim>\<open>u1\<close> and given gas and home balances, and a
  withdraw request of that user.\<close>

definition example_store :: "real \<Rightarrow> real \<Rightarrow> store" where
  "example_store gas_bal home_bal =
     \<lparr>users = [\<lparr>u_uid = ''u1'', u_email = Some ''a@b.c'', u_name = None, u_created_at = 1\<rparr>],
      user_auth = [],
      balances = [\<lparr>b_uid = ''u1'', balance_usd = gas_bal, wallet_balance_usd = home_bal,
                   b_updated_at = 1\<rparr>],
      deposits = [], stocks = [], next_deposit_id = 0\<rparr>"

definition example_req :: "real \<Rightarrow> real \<Rightarrow> real option \<Rightarrow> withdraw_req" where
  "example_req amount gas displayed =
     \<lparr>w_uid = Some ''u1'', w_amountUsd = Some amount, w_gasUsd = Some gas,
      w_displayedUsd = displayed\<rparr>"

definition empty_store :: store where
  "empty_store =
     \<lparr>users = [], user_auth = [], balances = [], deposits = [], stocks = [], next_deposit_id = 0\<rparr>"

definition example_signup :: signup_req where
  "example_signup = \<lparr>s_email = Some ''a@b.c'', s_name = None, s_password = Some ''secret''\<rparr>"

definition example_login :: login_req where
  "example_login = \<lparr>l_email = Some ''a@b.c'', l_password = Some ''secret''\<rparr>"

definition signed_up_store :: store where
  "signed_up_store =
     \<lparr>users = [\<lparr>u_uid = ''uid_1'', u_email = Some ''a@b.c'', u_name = None, u_created_at = 7\<rparr>],
      user_auth = [\<lparr>a_uid = ''uid_1'', a_email = ''a@b.c'', a_password_hash = rev ''secret'',
                    a_created_at = 7\<rparr>],
      balances = [\<lparr>b_uid = ''uid_1'', balance_usd = 0, wallet_balance_usd = 0, b_updated_at = 7\<rparr>],
      deposits = [\<lparr>d_id = 0, d_uid = ''uid_1'', amount_usd = 0, d_note = Some ''default'',
                   d_created_at = 7\<rparr>],
      stocks = [], next_deposit_id = 1\<rparr>"

definition signed_up_profile :: profile where
  "signed_up_profile =
     \<lparr>p_user = Some \<lparr>u_uid = ''uid_1'', u_email = Some ''a@b.c'', u_name = None,
                      u_created_at = 7\<rparr>,
      p_balance_usd = 0, p_wallet_balance_usd = 0\<rparr>"

definition listing_store :: store where
  "listing_store =
     \<lparr>users = [], user_auth = [], balances = [],
      deposits =
        [\<lparr>d_id = 0, d_uid = ''u1'', amount_usd = 0, d_note = Some ''default'', d_created_at = 1\<rparr>,
         \<lparr>d_id = 1, d_uid = ''u1'', amount_usd = 50, d_note = Some ''deposit_attempt_BTC_bc1q'',
          d_created_at = 2\<rparr>,
         \<lparr>d_id = 2, d_uid = ''u2'', amount_usd = 9, d_note = Some ''wallet'', d_created_at = 3\<rparr>,
         \<lparr>d_id = 3, d_uid = ''u1'', amount_usd = - 5, d_note = Some ''gas_fee'', d_created_at = 4\<rparr>],
      stocks = [], next_deposit_id = 4\<rparr>"

definition acme_req :: stock_req where
  "acme_req = \<lparr>st_company = Some ''Acme'', st_currentPrice = Some 100, st_percentage = Some 10,
                st_direction = Some ''up''\<rparr>"


section \<open>Properties of the withdraw handlers\<close>

lemma or0_id [simp]: "or0 x = x"
  by (simp add: or0_def)

lemma query_ok_simps:
  "query_ok ''balances'' [''uid'']"
  "query_ok ''balances'' (patch_cols p @ [''uid''])"
  "query_ok ''deposits'' [''uid'', ''amount_usd'', ''note'', ''created_at'', ''id'']"
  "query_ok ''users'' [''uid'']"
  by (simp_all add: query_ok_def initDb_schema_def patch_cols_def split: option.splits)

lemma find_update_rows:
  "find (\<lambda>b. b_uid b = uid) (update_rows uid p bs) =
   map_option (patch_row p) (find (\<lambda>b. b_uid b = uid) bs)"
  by (induction bs) (auto simp: update_rows_def patch_row_def)

lemma lookup_balance_update [simp]:
  "lookup_balance uid (s\<lparr>balances := bs\<rparr>) = find (\<lambda>b. b_uid b = uid) bs"
  by (simp add: lookup_balance_def)

lemma lookup_insert_deposit [simp]:
  "lookup_balance uid (insert_deposit d s) = lookup_balance uid s"
  "lookup_user uid (insert_deposit d s) = lookup_user uid s"
  by (simp_all add: lookup_balance_def lookup_user_def insert_deposit_def)

lemma lookup_user_balances [simp]:
  "lookup_user uid (s\<lparr>balances := bs\<rparr>) = lookup_user uid s"
  by (simp add: lookup_user_def)

lemma effectiveHome_ge: "home_bal \<le> effectiveHome home_bal d"
  by (simp add: effectiveHome_def split: option.splits)

lemma withdraw_body_fs:
  assumes "lookup_balance uid s = Some bd"
  shows "withdraw_body fs_balance_update fs_deposit_add fs_user_get fs_balance_get
           uid amount gas disp now bd s =
     (let eff = effectiveHome (wallet_balance_usd bd) disp in
      if eff < amount then (Inl InsufficientHomeBalance, s)
      else if balance_usd bd < gas then (Inl InsufficientGasBalance, s)
      else (Inr \<lparr>p_user = lookup_user uid s,
                 p_balance_usd = (if gas > 0 then balance_usd bd - gas else balance_usd bd),
                 p_wallet_balance_usd = eff - amount\<rparr>,
            withdraw_store uid amount gas eff now bd s))"
  using assms effectiveHome_ge[of "wallet_balance_usd bd" disp]
  by (auto simp: withdraw_body_def withdraw_store_def Let_def bind_io_def return_io_def fail_io_def
      fs_balance_update_def fs_deposit_add_def fs_user_get_def fs_balance_get_def
      find_update_rows lookup_balance_def[symmetric] patch_row_def bump_patch_def deduct_patch_def apply_fieldval_def)


lemma withdraw_body_sql:
  assumes "lookup_balance uid s = Some bd"
  shows "withdraw_body sql_balance_update sql_deposit_add sql_user_get sql_balance_get
           uid amount gas disp now bd s =
     (let eff = effectiveHome (wallet_balance_usd bd) disp in
      if eff < amount then (Inl InsufficientHomeBalance, s)
      else if balance_usd bd < gas then (Inl InsufficientGasBalance, s)
      else (Inr \<lparr>p_user = lookup_user uid s,
                 p_balance_usd = (if gas > 0 then balance_usd bd - gas else balance_usd bd),
                 p_wallet_balance_usd = eff - amount\<rparr>,
            withdraw_store uid amount gas eff now bd s))"
  using assms effectiveHome_ge[of "wallet_balance_usd bd" disp]
  by (auto simp: withdraw_body_def withdraw_store_def Let_def bind_io_def return_io_def fail_io_def
      sql_balance_update_def sql_deposit_add_def sql_user_get_def sql_balance_get_def
      query_def query_ok_simps falsy_def withdraw_entry_def gas_fee_entry_def
      find_update_rows lookup_balance_def[symmetric] patch_row_def bump_patch_def deduct_patch_def apply_fieldval_def)

lemma withdraw_fn_valid:
  assumes "w_uid rq = Some uid" "w_amountUsd rq = Some amount" "w_gasUsd rq = Some gas"
    and "uid \<noteq> []" "0 < amount" "0 \<le> gas" "lookup_balance uid s = Some bd"
  shows "withdraw_fn rq now s =
     (let eff = effectiveHome (wallet_balance_usd bd) (w_displayedUsd rq) in
      if eff < amount then (Inl InsufficientHomeBalance, s)
      else if balance_usd bd < gas then (Inl InsufficientGasBalance, s)
      else (Inr \<lparr>p_user = lookup_user uid s,
                 p_balance_usd = balance_usd bd - gas,
                 p_wallet_balance_usd = eff - amount\<rparr>,
            withdraw_store uid amount gas eff now bd s))"
  using assms
  by (auto simp: withdraw_fn_def bind_io_def fs_balance_get_def withdraw_body_fs Let_def)

lemma withdraw_sql_eq_fn: "withdraw_sql rq now s = withdraw_fn rq now s"
  by (auto simp: withdraw_sql_def withdraw_fn_def bind_io_def fs_balance_get_def sql_balance_get_def
       query_def query_ok_simps withdraw_body_fs withdraw_body_sql
      split: option.splits)


lemma lookup_withdraw_store:
  assumes "lookup_balance uid s = Some bd"
  shows "lookup_balance uid (withdraw_store uid amount gas (effectiveHome (wallet_balance_usd bd) disp) now bd s) =
     Some (bd\<lparr>wallet_balance_usd := effectiveHome (wallet_balance_usd bd) disp - amount,
              balance_usd := (if gas > 0 then balance_usd bd - gas else balance_usd bd),
              b_updated_at := now\<rparr>)"
  using assms effectiveHome_ge[of "wallet_balance_usd bd" disp]
  by (auto simp: withdraw_store_def Let_def find_update_rows lookup_balance_def[symmetric]
      patch_row_def bump_patch_def deduct_patch_def apply_fieldval_def)

lemma deposits_withdraw_store:
  "deposits (withdraw_store uid amount gas eff now bd s) =
     deposits s @
     [\<lparr>d_id = next_deposit_id s, d_uid = uid, amount_usd = - amount,
       d_note = Some ''withdraw'', d_created_at = now\<rparr>] @
     (if gas > 0
      then [\<lparr>d_id = Suc (next_deposit_id s), d_uid = uid, amount_usd = - gas,
              d_note = Some ''gas_fee'', d_created_at = now\<rparr>]
      else [])"
  by (simp add: withdraw_store_def Let_def insert_deposit_def withdraw_entry_def gas_fee_entry_def)

lemma withdraw_fn_success:
  assumes "withdraw_fn rq now s = (Inr p, s')"
  obtains uid amount gas bd where
    "w_uid rq = Some uid" "w_amountUsd rq = Some amount" "w_gasUsd rq = Some gas"
    "uid \<noteq> []" "0 < amount" "0 \<le> gas" "lookup_balance uid s = Some bd"
    "amount \<le> effectiveHome (wallet_balance_usd bd) (w_displayedUsd rq)" "gas \<le> balance_usd bd"
    "p = \<lparr>p_user = lookup_user uid s, p_balance_usd = balance_usd bd - gas,
          p_wallet_balance_usd = effectiveHome (wallet_balance_usd bd) (w_displayedUsd rq) - amount\<rparr>"
    "s' = withdraw_store uid amount gas (effectiveHome (wallet_balance_usd bd) (w_displayedUsd rq)) now bd s"
proof -
  from assms obtain uid amount gas where f: "w_uid rq = Some uid" "w_amountUsd rq = Some amount"
    "w_gasUsd rq = Some gas"
    by (auto simp: withdraw_fn_def fail_io_def split: option.splits)
  with assms have v: "uid \<noteq> []" "0 < amount" "0 \<le> gas"
    by (auto simp: withdraw_fn_def fail_io_def split: if_splits)
  with assms f obtain bd where b: "lookup_balance uid s = Some bd"
    by (auto simp: withdraw_fn_def fail_io_def bind_io_def fs_balance_get_def split: option.splits)
  from assms show thesis
    using that[OF f v b]
    by (auto simp: withdraw_fn_valid[OF f v b] Let_def split: if_splits)
qed


lemma example_lookup:
  "lookup_balance ''u1'' (example_store g h) =
     Some \<lparr>b_uid = ''u1'', balance_usd = g, wallet_balance_usd = h, b_updated_at = 1\<rparr>"
  by (simp add: lookup_balance_def example_store_def)

lemma example_req_simps:
  "w_uid (example_req a g d) = Some ''u1''"
  "w_amountUsd (example_req a g d) = Some a"
  "w_gasUsd (example_req a g d) = Some g"
  "w_displayedUsd (example_req a g d) = d"
  by (simp_all add: example_req_def)

lemma example_store_simps:
  "deposits (example_store g h) = []"
  "next_deposit_id (example_store g h) = 0"
  by (simp_all add: example_store_def)



text \<open>
  Claim C2, as stated, fails where both balances are short: the home check comes first,
  so a request with a gas balance below the gas fee fails \<^verbatim>\<open>insufficient_home_balance\<close>,
  not \<^verbatim>\<open>insufficient_gas_balance\<close>.
\<close>

theorem C2_counterexample:
  "or0 (balance_usd \<lparr>b_uid = ''u1'', balance_usd = 0, wallet_balance_usd = 0, b_updated_at = 1\<rparr>) < 5
   \<and> lookup_balance ''u1'' (example_store 0 0)
       = Some \<lparr>b_uid = ''u1'', balance_usd = 0, wallet_balance_usd = 0, b_updated_at = 1\<rparr>
   \<and> withdraw_fn (example_req 10 5 None) 7 (example_store 0 0)
       = (Inl InsufficientHomeBalance, example_store 0 0)
   \<and> withdraw_sql (example_req 10 5 None) 7 (example_store 0 0)
       = (Inl InsufficientHomeBalance, example_store 0 0)
   \<and> InsufficientHomeBalance \<noteq> InsufficientGasBalance"
  by (simp add: withdraw_sql_eq_fn example_lookup
      withdraw_fn_valid[OF example_req_simps(1-3) _ _ _ example_lookup] example_req_simps
      effectiveHome_def)

text \<open>
  Claim C2, amended. For a withdraw request that passes the parameter check and whose
  balance record exists, in both handlers: when the effective home balance is below the
  amount the request fails \<^verbatim>\<open>insufficient_home_balance\<close>; otherwise, when the gas
  balance is below the gas fee, it fails \<^verbatim>\<open>insufficient_gas_balance\<close>; in both cases the
  store is returned as it was.
\<close>

theorem C2_insufficient_balance_failures:
  assumes "handler = withdraw_sql \<or> handler = withdraw_fn"
    and "w_uid rq = Some uid" and "w_amountUsd rq = Some amount" and "w_gasUsd rq = Some gas"
    and "uid \<noteq> []" and "0 < amount" and "0 \<le> gas"
    and "lookup_balance uid s = Some bd"
  shows "(effectiveHome (or0 (wallet_balance_usd bd)) (w_displayedUsd rq) < amount \<longrightarrow>
            handler rq now s = (Inl InsufficientHomeBalance, s))
     \<and> (\<not> effectiveHome (or0 (wallet_balance_usd bd)) (w_displayedUsd rq) < amount
          \<and> or0 (balance_usd bd) < gas \<longrightarrow>
            handler rq now s = (Inl InsufficientGasBalance, s))"
proof -
  have h: "handler rq now s = withdraw_fn rq now s"
    using assms(1) by (auto simp: withdraw_sql_eq_fn)
  show ?thesis
    unfolding h
    by (auto simp: withdraw_fn_valid[OF assms(2-8)] Let_def)
qed

theorem C2_witness:
  "withdraw_sql (example_req 10 5 None) 7 (example_store 3 20)
     = (Inl InsufficientGasBalance, example_store 3 20)
   \<and> withdraw_fn (example_req 30 5 None) 7 (example_store 3 20)
     = (Inl InsufficientHomeBalance, example_store 3 20)"
proof -
  have g: "\<not> effectiveHome (or0 20) None < (10::real) \<and> or0 3 < (5::real)"
    and h: "effectiveHome (or0 20) None < (30::real)"
    by (simp_all add: effectiveHome_def)
  have 1: "withdraw_sql (example_req 10 5 None) 7 (example_store 3 20)
     = (Inl InsufficientGasBalance, example_store 3 20)"
    using C2_insufficient_balance_failures[where handler = withdraw_sql
        and rq = "example_req 10 5 None" and uid = "''u1''" and amount = 10 and gas = 5
        and s = "example_store 3 20" and now = 7, OF _ example_req_simps(1-3) _ _ _ example_lookup] g
    by (simp add: example_req_simps)
  have 2: "withdraw_fn (example_req 30 5 None) 7 (example_store 3 20)
     = (Inl InsufficientHomeBalance, example_store 3 20)"
    using C2_insufficient_balance_failures[where handler = withdraw_fn
        and rq = "example_req 30 5 None" and uid = "''u1''" and amount = 30 and gas = 5
        and s = "example_store 3 20" and now = 7, OF _ example_req_simps(1-3) _ _ _ example_lookup] h
    by (simp add: example_req_simps)
  from 1 2 show ?thesis by simp
qed







text \<open>
  Claim C4. For a user with \<^verbatim>\<open>wallet_balance_usd\<close> 100 and \<^verbatim>\<open>balance_usd\<close> 10, a
  withdraw of 30 with gas 5 and no displayed balance above 100 succeeds (for a non-empty
  uid), and a successful one leaves 70 and 5 and appends exactly the two entries
  \<^verbatim>\<open>{-30, "withdraw"}\<close> and \<^verbatim>\<open>{-5, "gas_fee"}\<close>, in that order.
\<close>

theorem C4_withdraw_30_gas_5:
  assumes "handler = withdraw_sql \<or> handler = withdraw_fn"
    and "w_uid rq = Some uid" and "w_amountUsd rq = Some 30" and "w_gasUsd rq = Some 5"
    and "w_displayedUsd rq = None \<or> (\<exists>d. w_displayedUsd rq = Some d \<and> d \<le> 100)"
    and "lookup_balance uid s = Some bd"
    and "wallet_balance_usd bd = 100" and "balance_usd bd = 10"
  shows "(uid \<noteq> [] \<longrightarrow> (\<exists>p s'. handler rq now s = (Inr p, s')))
     \<and> (\<forall>p s'. handler rq now s = (Inr p, s') \<longrightarrow>
           p_wallet_balance_usd p = 70 \<and> p_balance_usd p = 5
         \<and> lookup_balance uid s' = Some (bd\<lparr>wallet_balance_usd := 70, balance_usd := 5,
                                            b_updated_at := now\<rparr>)
         \<and> deposits s' = deposits s @
             [\<lparr>d_id = next_deposit_id s, d_uid = uid, amount_usd = - 30,
               d_note = Some ''withdraw'', d_created_at = now\<rparr>,
              \<lparr>d_id = Suc (next_deposit_id s), d_uid = uid, amount_usd = - 5,
               d_note = Some ''gas_fee'', d_created_at = now\<rparr>])"
proof -
  have h: "handler rq now s = withdraw_fn rq now s"
    using assms(1) by (auto simp: withdraw_sql_eq_fn)
  have eff: "effectiveHome (wallet_balance_usd bd) (w_displayedUsd rq) = 100"
    using assms(5,7) by (auto simp: effectiveHome_def)
  have r: "withdraw_fn rq now s =
      (Inr \<lparr>p_user = lookup_user uid s, p_balance_usd = 5, p_wallet_balance_usd = 70\<rparr>,
       withdraw_store uid 30 5 (effectiveHome (wallet_balance_usd bd) (w_displayedUsd rq)) now bd s)"
    if "uid \<noteq> []"
    using that assms(8)
    by (simp add: withdraw_fn_valid[OF assms(2,3,4) that _ _ assms(6)] eff Let_def)
  have ne: "uid \<noteq> []" if "withdraw_fn rq now s = (Inr p, s')" for p s'
    using that assms(2) by (elim withdraw_fn_success) simp
  have l: "lookup_balance uid
       (withdraw_store uid 30 5 (effectiveHome (wallet_balance_usd bd) (w_displayedUsd rq)) now bd s)
     = Some (bd\<lparr>wallet_balance_usd := 70, balance_usd := 5, b_updated_at := now\<rparr>)"
    using lookup_withdraw_store[OF assms(6), of 30 5 "w_displayedUsd rq" now] assms(8)
    by (simp add: eff)
  show ?thesis
    unfolding h using r ne l by (auto simp: deposits_withdraw_store)
qed

theorem C4_witness:
  "lookup_balance ''u1'' (example_store 10 100)
     = Some \<lparr>b_uid = ''u1'', balance_usd = 10, wallet_balance_usd = 100, b_updated_at = 1\<rparr>
   \<and> (\<exists>p s'. withdraw_fn (example_req 30 5 None) 7 (example_store 10 100) = (Inr p, s')
       \<and> p_wallet_balance_usd p = 70 \<and> p_balance_usd p = 5
       \<and> lookup_balance ''u1'' s'
           = Some \<lparr>b_uid = ''u1'', balance_usd = 5, wallet_balance_usd = 70, b_updated_at = 7\<rparr>
       \<and> deposits s' =
             [\<lparr>d_id = 0, d_uid = ''u1'', amount_usd = - 30,
               d_note = Some ''withdraw'', d_created_at = 7\<rparr>,
              \<lparr>d_id = 1, d_uid = ''u1'', amount_usd = - 5,
               d_note = Some ''gas_fee'', d_created_at = 7\<rparr>])"
proof -
  have w: "wallet_balance_usd
             \<lparr>b_uid = ''u1'', balance_usd = 10, wallet_balance_usd = 100, b_updated_at = 1\<rparr> = 100"
          "balance_usd
             \<lparr>b_uid = ''u1'', balance_usd = 10, wallet_balance_usd = 100, b_updated_at = 1\<rparr> = 10"
    by simp_all
  note t = C4_withdraw_30_gas_5[where handler = withdraw_fn and rq = "example_req 30 5 None"
      and s = "example_store 10 100" and now = 7,
      OF disjI2[OF refl] example_req_simps(1-3) disjI1[OF example_req_simps(4)] example_lookup w]
  have ne: "''u1'' \<noteq> []" by simp
  from t[THEN conjunct1, THEN mp, OF ne] obtain p s'
    where r: "withdraw_fn (example_req 30 5 None) 7 (example_store 10 100) = (Inr p, s')"
    by blast
  from t[THEN conjunct2, THEN spec, THEN spec, THEN mp, OF r]
  have "p_wallet_balance_usd p = 70 \<and> p_balance_usd p = 5
       \<and> lookup_balance ''u1'' s'
           = Some \<lparr>b_uid = ''u1'', balance_usd = 5, wallet_balance_usd = 70, b_updated_at = 7\<rparr>
       \<and> deposits s' =
             [\<lparr>d_id = 0, d_uid = ''u1'', amount_usd = - 30,
               d_note = Some ''withdraw'', d_created_at = 7\<rparr>,
              \<lparr>d_id = 1, d_uid = ''u1'', amount_usd = - 5,
               d_note = Some ''gas_fee'', d_created_at = 7\<rparr>]"
    by (simp add: example_store_simps)
  with r example_lookup show ?thesis by blast
qed




section \<open>Properties of signup and login\<close>

lemma query_ok_db:
  "query_ok ''user_auth'' [''email'']"
  "query_ok ''users'' [''uid'', ''email'', ''name'', ''created_at'']"
  "query_ok ''user_auth'' [''uid'', ''email'', ''password_hash'', ''created_at'']"
  "query_ok ''balances'' [''uid'', ''balance_usd'', ''wallet_balance_usd'', ''updated_at'']"
  by (simp_all add: query_ok_def initDb_schema_def)

lemmas db_defs = findAuthByEmail_def createUserRecord_def createAuthRecord_def upsertBalance_def
  addDeposit_def getBalance_def getUserProfile_def query_def query_ok_db query_ok_simps
  bind_io_def return_io_def fail_io_def

lemmas fs_defs = fs_auth_by_email_def fs_user_set_def fs_auth_set_def fs_balance_set_def
  fs_deposit_add_def fs_profile_def fs_user_get_def fs_balance_get_def
  bind_io_def return_io_def fail_io_def

text \<open>
  Claim C5. A signup request without an email, without a password or with a password
  shorter than 6 characters fails \<open>InvalidInput\<close> (400 \<^verbatim>\<open>invalid_input\<close> in \<^verbatim>\<open>server.js\<close>,
  400 \<^verbatim>\<open>email_and_password_required_min_6_chars\<close> in \<^verbatim>\<open>functions/index.js\<close>) and
  returns the store as it was: no user, credential, balance or deposit record is created.
\<close>

theorem C5_signup_rejects_invalid_input:
  assumes "handler = signup_sql \<or> handler = signup_fn"
    and "falsy (s_email rq) \<or> falsy (s_password rq)
         \<or> (\<exists>password. s_password rq = Some password \<and> length password < 6)"
  shows "handler hashPassword rq uid now s = (Inl InvalidInput, s)"
  using assms
  by (auto simp: signup_sql_def signup_fn_def falsy_def fail_io_def split: option.splits)

theorem C5_witness:
  "length ''12345'' < 6
   \<and> signup_sql rev \<lparr>s_email = Some ''a@b.c'', s_name = None, s_password = Some ''12345''\<rparr>
        ''uid_1'' 7 signed_up_store = (Inl InvalidInput, signed_up_store)
   \<and> signup_fn rev \<lparr>s_email = None, s_name = None, s_password = Some ''secret''\<rparr>
        ''uid_1'' 7 signed_up_store = (Inl InvalidInput, signed_up_store)"
  using C5_signup_rejects_invalid_input[where handler = signup_sql and hashPassword = rev
      and rq = "\<lparr>s_email = Some ''a@b.c'', s_name = None, s_password = Some ''12345''\<rparr>"
      and uid = "''uid_1''" and now = 7 and s = signed_up_store]
    C5_signup_rejects_invalid_input[where handler = signup_fn and hashPassword = rev
      and rq = "\<lparr>s_email = None, s_name = None, s_password = Some ''secret''\<rparr>"
      and uid = "''uid_1''" and now = 7 and s = signed_up_store]
  by (simp add: falsy_def)

lemma find_upsert_key:
  assumes "\<And>r. is_key r \<Longrightarrow> is_key (oc r)" "is_key new"
  shows "find is_key (upsert is_key oc new rows) =
     Some (case find is_key rows of None \<Rightarrow> new | Some r \<Rightarrow> oc r)"
proof (cases "list_ex is_key rows")
  case True
  have "find is_key (map (\<lambda>r. if is_key r then oc r else r) rows) = map_option oc (find is_key rows)"
    by (induction rows) (auto simp: assms(1))
  moreover from True have "find is_key rows \<noteq> None"
    by (auto simp: find_None_iff list_ex_iff)
  then obtain r where "find is_key rows = Some r"
    by blast
  ultimately show ?thesis using True by (simp add: upsert_def)
next
  case False
  then have "find is_key rows = None"
    by (induction rows) auto
  moreover have "find is_key (rows @ [new]) = Some new"
    using False assms(2) by (induction rows) auto
  ultimately show ?thesis using False by (simp add: upsert_def)
qed

lemma find_upsert_other:
  assumes "find P rows = None" "P new" "\<And>r. is_key r \<Longrightarrow> P (oc r)" 
  shows "\<exists>r. find P (upsert is_key oc new rows) = Some r \<and> (r = new \<or> (\<exists>r'. r = oc r' \<and> is_key r'))"
proof (cases "list_ex is_key rows")
  case True
  from assms(1,3) True
  have "\<exists>r'. find P (map (\<lambda>r. if is_key r then oc r else r) rows) = Some (oc r') \<and> is_key r'"
    by (induction rows) (auto split: if_splits)
  then show ?thesis using True by (auto simp: upsert_def)
next
  case False
  have "find P (rows @ [new]) = Some new"
    using assms(1,2) by (induction rows) (auto split: if_splits)
  then show ?thesis using False by (simp add: upsert_def)
qed

lemma getUserProfile_Some:
  assumes "lookup_user uid s = Some u"
  shows "getUserProfile uid s =
     (Inr (Some \<lparr>p_user = Some u,
                 p_balance_usd = (case lookup_balance uid s of None \<Rightarrow> 0 | Some b \<Rightarrow> balance_usd b),
                 p_wallet_balance_usd =
                   (case lookup_balance uid s of None \<Rightarrow> 0 | Some b \<Rightarrow> wallet_balance_usd b)\<rparr>), s)"
  using assms by (simp add: db_defs)

lemma signup_sql_valid:
  assumes "s_email rq = Some email" "s_password rq = Some password"
    and "email \<noteq> []" "6 \<le> length password"
    and "find (\<lambda>a. a_email a = email) (user_auth s) = None"
  shows "signup_sql hashPassword rq uid now s =
     getUserProfile uid
       (insert_deposit \<lparr>dd_uid = uid, dd_amount_usd = 0, dd_note = Some ''default'',
                        dd_created_at = now\<rparr>
         (s\<lparr>users := upsert (\<lambda>r. u_uid r = uid)
                      (\<lambda>r. r\<lparr>u_email := Some email, u_name := or_null (s_name rq)\<rparr>)
                      \<lparr>u_uid = uid, u_email = Some email, u_name = or_null (s_name rq),
                       u_created_at = now\<rparr> (users s),
            user_auth := upsert (\<lambda>r. a_uid r = uid)
                      (\<lambda>r. r\<lparr>a_email := email, a_password_hash := hashPassword password\<rparr>)
                      \<lparr>a_uid = uid, a_email = email, a_password_hash = hashPassword password,
                       a_created_at = now\<rparr> (user_auth s),
            balances := upsert (\<lambda>r. b_uid r = uid)
                      (\<lambda>r. \<lparr>b_uid = uid, balance_usd = 0, wallet_balance_usd = 0,
                             b_updated_at = now\<rparr>)
                      \<lparr>b_uid = uid, balance_usd = 0, wallet_balance_usd = 0,
                       b_updated_at = now\<rparr> (balances s)\<rparr>))"
proof -
  from assms(4) have "password \<noteq> []" "\<not> length password < 6" by auto
  then show ?thesis
    using assms(1,2,3,5)
    by (simp add: signup_sql_def findAuthByEmail_def createUserRecord_def createAuthRecord_def
        upsertBalance_def addDeposit_def query_def query_ok_db query_ok_simps bind_io_def)
qed

lemma signup_sql_success:
  assumes "signup_sql hashPassword rq uid now s = (Inr prof, s')"
  obtains email password where
    "s_email rq = Some email" "s_password rq = Some password"
    "email \<noteq> []" "6 \<le> length password"
    "find (\<lambda>a. a_email a = email) (user_auth s) = None"
proof -
  from assms obtain email password where f: "s_email rq = Some email" "s_password rq = Some password"
    by (auto simp: signup_sql_def fail_io_def split: option.splits)
  with assms have v: "email \<noteq> []" "6 \<le> length password"
    by (auto simp: signup_sql_def fail_io_def split: if_splits)
  then have "password \<noteq> []" by auto
  with assms f v have "find (\<lambda>a. a_email a = email) (user_auth s) = None"
    by (auto simp: signup_sql_def fail_io_def bind_io_def findAuthByEmail_def query_def query_ok_db
        split: option.splits if_splits)
  with f v show thesis by (rule that)
qed

lemma lookup_user_simps [simp]:
  "lookup_user uid (s\<lparr>users := us, user_auth := as, balances := bs\<rparr>) = find (\<lambda>u. u_uid u = uid) us"
  by (simp add: lookup_user_def)

lemma user_auth_insert_deposit [simp]:
  "user_auth (insert_deposit d s) = user_auth s"
  by (simp add: insert_deposit_def)

lemma signup_login_sql:
  assumes "signup_sql hashPassword rq uid now s = (Inr prof, s')"
  shows "\<exists>p u. prof = Some p \<and> p_user p = Some u \<and> u_uid u = uid
     \<and> login_sql hashPassword \<lparr>l_email = s_email rq, l_password = s_password rq\<rparr> s'
         = (Inr (Some p), s')"
proof -
  from assms obtain email password where
    f: "s_email rq = Some email" "s_password rq = Some password"
    and v: "email \<noteq> []" "6 \<le> length password"
    and fresh: "find (\<lambda>a. a_email a = email) (user_auth s) = None"
    by (rule signup_sql_success)
  define new_user where "new_user =
    \<lparr>u_uid = uid, u_email = Some email, u_name = or_null (s_name rq), u_created_at = now\<rparr>"
  define new_auth where "new_auth =
    \<lparr>a_uid = uid, a_email = email, a_password_hash = hashPassword password, a_created_at = now\<rparr>"
  define users' where "users' = upsert (\<lambda>r. u_uid r = uid)
      (\<lambda>r. r\<lparr>u_email := Some email, u_name := or_null (s_name rq)\<rparr>) new_user (users s)"
  define auth' where "auth' = upsert (\<lambda>r. a_uid r = uid)
      (\<lambda>r. r\<lparr>a_email := email, a_password_hash := hashPassword password\<rparr>) new_auth (user_auth s)"
  define S where "S = insert_deposit
      \<lparr>dd_uid = uid, dd_amount_usd = 0, dd_note = Some ''default'', dd_created_at = now\<rparr>
      (s\<lparr>users := users', user_auth := auth',
         balances := upsert (\<lambda>r. b_uid r = uid)
            (\<lambda>r. \<lparr>b_uid = uid, balance_usd = 0, wallet_balance_usd = 0, b_updated_at = now\<rparr>)
            \<lparr>b_uid = uid, balance_usd = 0, wallet_balance_usd = 0, b_updated_at = now\<rparr>
            (balances s)\<rparr>)"
  have run: "signup_sql hashPassword rq uid now s = getUserProfile uid S"
    unfolding S_def users'_def auth'_def new_user_def new_auth_def
    by (rule signup_sql_valid[OF f v fresh])
  have "find (\<lambda>r. u_uid r = uid) users' =
      Some (case find (\<lambda>r. u_uid r = uid) (users s) of None \<Rightarrow> new_user
            | Some r \<Rightarrow> r\<lparr>u_email := Some email, u_name := or_null (s_name rq)\<rparr>)"
    unfolding users'_def by (rule find_upsert_key) (simp_all add: new_user_def)
  then obtain u where fu: "find (\<lambda>r. u_uid r = uid) users' = Some u"
    by simp
  then have "u_uid u = uid"
    by (auto simp: find_Some_iff)
  moreover have "lookup_user uid S = find (\<lambda>r. u_uid r = uid) users'"
    by (simp add: S_def lookup_user_def insert_deposit_def)
  ultimately have u: "lookup_user uid S = Some u" "u_uid u = uid"
    using fu by simp_all
  define p where "p =
    \<lparr>p_user = Some u,
     p_balance_usd = (case lookup_balance uid S of None \<Rightarrow> 0 | Some b \<Rightarrow> balance_usd b),
     p_wallet_balance_usd =
       (case lookup_balance uid S of None \<Rightarrow> 0 | Some b \<Rightarrow> wallet_balance_usd b)\<rparr>"
  have g: "getUserProfile uid S = (Inr (Some p), S)"
    unfolding p_def by (rule getUserProfile_Some[OF u(1)])
  with run assms have p: "prof = Some p" and s': "s' = S"
    by simp_all
  have pu: "p_user p = Some u"
    by (simp add: p_def)
  have "\<exists>a. find (\<lambda>a. a_email a = email) auth' = Some a \<and>
      (a = new_auth \<or> (\<exists>r'. a = r'\<lparr>a_email := email, a_password_hash := hashPassword password\<rparr>
          \<and> a_uid r' = uid))"
    unfolding auth'_def by (rule find_upsert_other[OF fresh]) (simp_all add: new_auth_def)
  moreover have "user_auth S = auth'"
    by (simp add: S_def insert_deposit_def)
  ultimately obtain a where a: "find (\<lambda>a. a_email a = email) (user_auth S) = Some a"
    "a_uid a = uid" "a_password_hash a = hashPassword password"
    by (auto simp: new_auth_def)
  from v have pw: "password \<noteq> []" by auto
  have "login_sql hashPassword \<lparr>l_email = s_email rq, l_password = s_password rq\<rparr> S
      = getUserProfile uid S"
    using f v(1) pw a
    by (simp add: login_sql_def findAuthByEmail_def query_def query_ok_db bind_io_def)
  with p pu u(2) s' g show ?thesis by simp
qed

lemma example_signup_sql:
  "signup_sql rev example_signup ''uid_1'' 7 empty_store
     = (Inr (Some signed_up_profile), signed_up_store)"
  by (simp add: signup_sql_def example_signup_def empty_store_def signed_up_store_def
      signed_up_profile_def db_defs upsert_def insert_deposit_def lookup_user_def
      lookup_balance_def or_null_def falsy_def)

lemma signup_fn_valid:
  assumes "s_email rq = Some email" "s_password rq = Some password"
    and "email \<noteq> []" "6 \<le> length password"
    and "find (\<lambda>a. a_email a = email) (user_auth s) = None"
  shows "signup_fn hashPassword rq uid now s =
     bind_io (fs_profile uid) (\<lambda>profile. return_io (Some profile))
       (insert_deposit \<lparr>dd_uid = uid, dd_amount_usd = 0, dd_note = Some ''default'',
                        dd_created_at = now\<rparr>
         (s\<lparr>users := upsert (\<lambda>r. u_uid r = uid)
                      (\<lambda>r. \<lparr>u_uid = uid, u_email = Some email, u_name = or_null (s_name rq),
                             u_created_at = now\<rparr>)
                      \<lparr>u_uid = uid, u_email = Some email, u_name = or_null (s_name rq),
                       u_created_at = now\<rparr> (users s),
            user_auth := upsert (\<lambda>r. a_uid r = uid)
                      (\<lambda>r. \<lparr>a_uid = uid, a_email = email, a_password_hash = hashPassword password,
                             a_created_at = now\<rparr>)
                      \<lparr>a_uid = uid, a_email = email, a_password_hash = hashPassword password,
                       a_created_at = now\<rparr> (user_auth s),
            balances := upsert (\<lambda>r. b_uid r = uid)
                      (\<lambda>r. \<lparr>b_uid = uid, balance_usd = 0, wallet_balance_usd = 0,
                             b_updated_at = now\<rparr>)
                      \<lparr>b_uid = uid, balance_usd = 0, wallet_balance_usd = 0,
                       b_updated_at = now\<rparr> (balances s)\<rparr>))"
proof -
  from assms(4) have "password \<noteq> []" "\<not> length password < 6" by auto
  then show ?thesis
    using assms(1,2,3,5)
    by (simp add: signup_fn_def fs_auth_by_email_def fs_user_set_def fs_auth_set_def
        fs_balance_set_def fs_deposit_add_def bind_io_def)
qed

lemma signup_fn_success:
  assumes "signup_fn hashPassword rq uid now s = (Inr prof, s')"
  obtains email password where
    "s_email rq = Some email" "s_password rq = Some password"
    "email \<noteq> []" "6 \<le> length password"
    "find (\<lambda>a. a_email a = email) (user_auth s) = None"
proof -
  from assms obtain email password where f: "s_email rq = Some email" "s_password rq = Some password"
    by (auto simp: signup_fn_def fail_io_def split: option.splits)
  with assms have v: "email \<noteq> []" "6 \<le> length password"
    by (auto simp: signup_fn_def fail_io_def split: if_splits)
  then have "password \<noteq> []" by auto
  with assms f v have "find (\<lambda>a. a_email a = email) (user_auth s) = None"
    by (auto simp: signup_fn_def fail_io_def bind_io_def fs_auth_by_email_def
        split: option.splits if_splits)
  with f v show thesis by (rule that)
qed

lemma signup_login_fn:
  assumes "signup_fn hashPassword rq uid now s = (Inr prof, s')"
  shows "\<exists>p u. prof = Some p \<and> p_user p = Some u \<and> u_uid u = uid
     \<and> login_fn hashPassword \<lparr>l_email = s_email rq, l_password = s_password rq\<rparr> s'
         = (Inr (Some p), s')"
proof -
  from assms obtain email password where
    f: "s_email rq = Some email" "s_password rq = Some password"
    and v: "email \<noteq> []" "6 \<le> length password"
    and fresh: "find (\<lambda>a. a_email a = email) (user_auth s) = None"
    by (rule signup_fn_success)
  define new_user where "new_user =
    \<lparr>u_uid = uid, u_email = Some email, u_name = or_null (s_name rq), u_created_at = now\<rparr>"
  define new_auth where "new_auth =
    \<lparr>a_uid = uid, a_email = email, a_password_hash = hashPassword password, a_created_at = now\<rparr>"
  define users' where "users' = upsert (\<lambda>r. u_uid r = uid) (\<lambda>r. new_user) new_user (users s)"
  define auth' where "auth' = upsert (\<lambda>r. a_uid r = uid) (\<lambda>r. new_auth) new_auth (user_auth s)"
  define S where "S = insert_deposit
      \<lparr>dd_uid = uid, dd_amount_usd = 0, dd_note = Some ''default'', dd_created_at = now\<rparr>
      (s\<lparr>users := users', user_auth := auth',
         balances := upsert (\<lambda>r. b_uid r = uid)
            (\<lambda>r. \<lparr>b_uid = uid, balance_usd = 0, wallet_balance_usd = 0, b_updated_at = now\<rparr>)
            \<lparr>b_uid = uid, balance_usd = 0, wallet_balance_usd = 0, b_updated_at = now\<rparr>
            (balances s)\<rparr>)"
  define p where "p =
    \<lparr>p_user = lookup_user uid S,
     p_balance_usd = or0 (case lookup_balance uid S of None \<Rightarrow> 0 | Some b \<Rightarrow> balance_usd b),
     p_wallet_balance_usd =
       or0 (case lookup_balance uid S of None \<Rightarrow> 0 | Some b \<Rightarrow> wallet_balance_usd b)\<rparr>"
  have prof: "bind_io (fs_profile uid) (\<lambda>profile. return_io (Some profile)) S = (Inr (Some p), S)"
    by (simp add: fs_defs p_def)
  have run: "signup_fn hashPassword rq uid now s
      = bind_io (fs_profile uid) (\<lambda>profile. return_io (Some profile)) S"
    unfolding S_def users'_def auth'_def new_user_def new_auth_def
    by (rule signup_fn_valid[OF f v fresh])
  with prof assms have r: "prof = Some p" "s' = S"
    by simp_all
  have "find (\<lambda>r. u_uid r = uid) users' =
      Some (case find (\<lambda>r. u_uid r = uid) (users s) of None \<Rightarrow> new_user | Some r \<Rightarrow> new_user)"
    unfolding users'_def by (rule find_upsert_key) (simp_all add: new_user_def)
  moreover have "lookup_user uid S = find (\<lambda>r. u_uid r = uid) users'"
    by (simp add: S_def lookup_user_def insert_deposit_def)
  ultimately have u: "p_user p = Some new_user"
    by (simp add: p_def split: option.splits)
  have na: "a_email new_auth = email"
    by (simp add: new_auth_def)
  from find_upsert_other[OF fresh, of new_auth "\<lambda>r. a_uid r = uid" "\<lambda>r. new_auth"] na
  have "find (\<lambda>a. a_email a = email) auth' = Some new_auth"
    unfolding auth'_def by auto
  moreover have "user_auth S = auth'"
    by (simp add: S_def insert_deposit_def)
  ultimately have a: "find (\<lambda>a. a_email a = email) (user_auth S) = Some new_auth"
    by auto
  from v have pw: "password \<noteq> []" by auto
  have "login_fn hashPassword \<lparr>l_email = s_email rq, l_password = s_password rq\<rparr> S
      = bind_io (fs_profile uid) (\<lambda>profile. return_io (Some profile)) S"
    using f v(1) pw a
    by (simp add: login_fn_def fs_auth_by_email_def bind_io_def new_auth_def)
  with prof r u show ?thesis
    by (simp add: new_user_def)
qed

lemma example_signup_fn:
  "signup_fn rev example_signup ''uid_1'' 7 empty_store
     = (Inr (Some signed_up_profile), signed_up_store)"
  by (simp add: signup_fn_def example_signup_def empty_store_def signed_up_store_def
      signed_up_profile_def fs_defs upsert_def insert_deposit_def lookup_user_def
      lookup_balance_def or_null_def falsy_def)

text \<open>
  Claim C9. After a successful signup, a login with the same email and password on the
  resulting store succeeds and returns the profile that the signup returned; its uid is
  the uid that the signup generated. This holds on the relational server and on the
  document-store server, for every hash function: the handlers apply the same function
  to the same password.
\<close>

theorem C9_signup_then_login_same_uid:
  assumes "(signup = signup_sql \<and> login = login_sql) \<or> (signup = signup_fn \<and> login = login_fn)"
    and "signup hashPassword rq uid now s = (Inr prof, s')"
  shows "\<exists>p u. prof = Some p \<and> p_user p = Some u \<and> u_uid u = uid
     \<and> login hashPassword \<lparr>l_email = s_email rq, l_password = s_password rq\<rparr> s'
         = (Inr (Some p), s')"
proof -
  from assms(1) show ?thesis
  proof
    assume h: "signup = signup_sql \<and> login = login_sql"
    with assms(2) have "signup_sql hashPassword rq uid now s = (Inr prof, s')" by simp
    from signup_login_sql[OF this] h show ?thesis by simp
  next
    assume h: "signup = signup_fn \<and> login = login_fn"
    with assms(2) have "signup_fn hashPassword rq uid now s = (Inr prof, s')" by simp
    from signup_login_fn[OF this] h show ?thesis by simp
  qed
qed

theorem C9_witness:
  "signup_sql rev example_signup ''uid_1'' 7 empty_store
     = (Inr (Some signed_up_profile), signed_up_store)
   \<and> login_sql rev example_login signed_up_store = (Inr (Some signed_up_profile), signed_up_store)
   \<and> signup_fn rev example_signup ''uid_1'' 7 empty_store
     = (Inr (Some signed_up_profile), signed_up_store)
   \<and> login_fn rev example_login signed_up_store = (Inr (Some signed_up_profile), signed_up_store)
   \<and> map_option u_uid (p_user signed_up_profile) = Some ''uid_1''"
proof -
  have l: "\<lparr>l_email = s_email example_signup, l_password = s_password example_signup\<rparr>
      = example_login"
    by (simp add: example_signup_def example_login_def)
  have "(signup_sql = signup_sql \<and> login_sql = login_sql)
      \<or> (signup_sql = signup_fn \<and> login_sql = login_fn)"
    by simp
  from C9_signup_then_login_same_uid[where signup = signup_sql and login = login_sql,
      OF this example_signup_sql]
  obtain p where "Some signed_up_profile = Some p"
    and "login_sql rev \<lparr>l_email = s_email example_signup, l_password = s_password example_signup\<rparr>
           signed_up_store = (Inr (Some p), signed_up_store)"
    by blast
  then have 1: "login_sql rev example_login signed_up_store
      = (Inr (Some signed_up_profile), signed_up_store)"
    unfolding l by simp
  have "(signup_fn = signup_sql \<and> login_fn = login_sql)
      \<or> (signup_fn = signup_fn \<and> login_fn = login_fn)"
    by simp
  from C9_signup_then_login_same_uid[where signup = signup_fn and login = login_fn,
      OF this example_signup_fn]
  obtain q where "Some signed_up_profile = Some q"
    and "login_fn rev \<lparr>l_email = s_email example_signup, l_password = s_password example_signup\<rparr>
           signed_up_store = (Inr (Some q), signed_up_store)"
    by blast
  then have 2: "login_fn rev example_login signed_up_store
      = (Inr (Some signed_up_profile), signed_up_store)"
    unfolding l by simp
  have 3: "map_option u_uid (p_user signed_up_profile) = Some ''uid_1''"
    by (simp add: signed_up_profile_def)
  from example_signup_sql example_signup_fn 1 2 3 show ?thesis by simp
qed










section \<open>Properties of the deposit listing\<close>

lemma sql_like_percent: "sql_like ''%'' s"
  by (induction s) auto

lemma sql_like_prefix:
  "CHR ''%'' \<notin> set p \<Longrightarrow> sql_like (p @ ''%'') (p @ r)"
proof (induction p)
  case Nil
  show ?case by (simp only: append_Nil sql_like_percent)
next
  case (Cons c p)
  then show ?case by simp
qed

lemma attempt_prefix_like:
  "prefix ''deposit_attempt_'' n \<Longrightarrow> sql_like ''deposit_attempt_%'' n"
  "prefix ''gas_fee_attempt_'' n \<Longrightarrow> sql_like ''gas_fee_attempt_%'' n"
  using sql_like_prefix[of "''deposit_attempt_''"] sql_like_prefix[of "''gas_fee_attempt_''"]
  by (auto simp: prefix_def)

lemma sorted_desc_order_desc_limit:
  "sorted_wrt (\<lambda>a b. d_created_at b \<le> d_created_at a) (order_desc_limit n ds)"
proof -
  have "sorted (map (\<lambda>d. - d_created_at d) (sort_key (\<lambda>d. - d_created_at d) ds))"
    by (rule sorted_sort_key)
  then have "sorted_wrt (\<lambda>a b. d_created_at b \<le> d_created_at a) (sort_key (\<lambda>d. - d_created_at d) ds)"
    by (simp add: sorted_map)
  then show ?thesis
    unfolding order_desc_limit_def by (rule sorted_wrt_take)
qed

lemma order_desc_limit_bounds:
  "length (order_desc_limit n ds) \<le> n"
  "set (order_desc_limit n ds) \<subseteq> set ds"
  using set_take_subset[of n "sort_key (\<lambda>d. - d_created_at d) ds"]
  by (simp_all add: order_desc_limit_def)

lemma order_desc_limit_most_recent:
  assumes "d \<in> set ds" "d \<notin> set (order_desc_limit n ds)"
  shows "length (order_desc_limit n ds) = n
     \<and> (\<forall>r \<in> set (order_desc_limit n ds). d_created_at d \<le> d_created_at r)"
proof -
  let ?xs = "sort_key (\<lambda>d. - d_created_at d) ds"
  let ?R = "\<lambda>a b. d_created_at b \<le> d_created_at a"
  have "sorted_wrt ?R ?xs"
    using sorted_sort_key[of "\<lambda>d. - d_created_at d" ds] by (simp add: sorted_map)
  then have "sorted_wrt ?R (take n ?xs @ drop n ?xs)"
    by (simp only: append_take_drop_id)
  then have s: "\<forall>x \<in> set (take n ?xs). \<forall>y \<in> set (drop n ?xs). ?R x y"
    unfolding sorted_wrt_append by blast
  have "set ?xs = set (take n ?xs) \<union> set (drop n ?xs)"
    by (metis append_take_drop_id set_append)
  with assms have d: "d \<in> set (drop n ?xs)"
    by (auto simp: order_desc_limit_def)
  then have "n < length ?xs"
    by (cases "n < length ?xs") auto
  then have "length (take n ?xs) = n" by simp
  moreover have "\<forall>r \<in> set (take n ?xs). d_created_at d \<le> d_created_at r"
    using s d by blast
  ultimately show ?thesis by (simp add: order_desc_limit_def)
qed

text \<open>
  Claim C7, as stated, fails on the document-store server: its listing has no condition
  on the note and returns a record whose note starts with \<^verbatim>\<open>deposit_attempt_\<close>.
\<close>

theorem C7_counterexample:
  "prefix ''deposit_attempt_'' ''deposit_attempt_BTC_bc1q''
   \<and> list_deposits_fn ''u1''
        \<lparr>users = [], user_auth = [], balances = [],
         deposits = [\<lparr>d_id = 0, d_uid = ''u1'', amount_usd = 50,
                      d_note = Some ''deposit_attempt_BTC_bc1q'', d_created_at = 7\<rparr>],
         stocks = [], next_deposit_id = 1\<rparr>
     = (Inr [\<lparr>d_id = 0, d_uid = ''u1'', amount_usd = 50,
              d_note = Some ''deposit_attempt_BTC_bc1q'', d_created_at = 7\<rparr>],
        \<lparr>users = [], user_auth = [], balances = [],
         deposits = [\<lparr>d_id = 0, d_uid = ''u1'', amount_usd = 50,
                      d_note = Some ''deposit_attempt_BTC_bc1q'', d_created_at = 7\<rparr>],
         stocks = [], next_deposit_id = 1\<rparr>)"
  by (simp add: list_deposits_fn_def order_desc_limit_def prefix_def)

lemma query_ok_deposits:
  "query_ok ''deposits'' [''id'', ''uid'', ''amount_usd'', ''note'', ''created_at'']"
  by (simp add: query_ok_def initDb_schema_def)

text \<open>
  Claim C7, amended. For every non-empty uid, the relational server's listing returns
  records of that uid from the store, ordered by \<^verbatim>\<open>created_at\<close> descending, at most 20,
  none of which has a note starting with \<^verbatim>\<open>deposit_attempt_\<close> or \<^verbatim>\<open>gas_fee_attempt_\<close>,
  and a record that passes the query's conditions and is left out is no more recent than
  any of the 20 returned. The document-store server's listing returns the 20 most recent
  records of the uid in the same order, whatever their notes.
\<close>

theorem C7_deposit_listing:
  assumes "uid \<noteq> []"
  shows "(\<exists>rows. list_deposits_sql uid s = (Inr rows, s)
        \<and> sorted_wrt (\<lambda>a b. d_created_at b \<le> d_created_at a) rows
        \<and> length rows \<le> 20
        \<and> (\<forall>d \<in> set rows. d \<in> set (deposits s) \<and> d_uid d = uid
              \<and> (\<exists>n. d_note d = Some n \<and> \<not> prefix ''deposit_attempt_'' n
                     \<and> \<not> prefix ''gas_fee_attempt_'' n))
        \<and> (\<forall>d \<in> set (deposits s). d_uid d = uid
              \<and> not_like (d_note d) ''deposit_attempt_%''
              \<and> not_like (d_note d) ''gas_fee_attempt_%'' \<and> d \<notin> set rows \<longrightarrow>
              length rows = 20 \<and> (\<forall>r \<in> set rows. d_created_at d \<le> d_created_at r)))
     \<and> (\<exists>rows. list_deposits_fn uid s = (Inr rows, s)
        \<and> sorted_wrt (\<lambda>a b. d_created_at b \<le> d_created_at a) rows
        \<and> length rows \<le> 20
        \<and> (\<forall>d \<in> set rows. d \<in> set (deposits s) \<and> d_uid d = uid)
        \<and> (\<forall>d \<in> set (deposits s). d_uid d = uid \<and> d \<notin> set rows \<longrightarrow>
              length rows = 20 \<and> (\<forall>r \<in> set rows. d_created_at d \<le> d_created_at r)))"
proof (intro conjI)
  let ?keep = "\<lambda>d. d_uid d = uid \<and> not_like (d_note d) ''deposit_attempt_%''
                  \<and> not_like (d_note d) ''gas_fee_attempt_%''"
  let ?rows = "order_desc_limit 20 (filter ?keep (deposits s))"
  have run: "list_deposits_sql uid s = (Inr ?rows, s)"
    using assms by (simp add: list_deposits_sql_def query_def query_ok_deposits)
  have sub: "set ?rows \<subseteq> set (filter ?keep (deposits s))"
    by (rule order_desc_limit_bounds)
  have nt: "\<exists>n. d_note d = Some n \<and> \<not> prefix ''deposit_attempt_'' n
                     \<and> \<not> prefix ''gas_fee_attempt_'' n" if "?keep d" for d
    using that attempt_prefix_like
    by (cases "d_note d") (auto simp: not_like_def)
  have recent: "length ?rows = 20 \<and> (\<forall>r \<in> set ?rows. d_created_at d \<le> d_created_at r)"
    if "d \<in> set (deposits s)" "?keep d" "d \<notin> set ?rows" for d
    using that by (intro order_desc_limit_most_recent) simp_all
  show "\<exists>rows. list_deposits_sql uid s = (Inr rows, s)
        \<and> sorted_wrt (\<lambda>a b. d_created_at b \<le> d_created_at a) rows
        \<and> length rows \<le> 20
        \<and> (\<forall>d \<in> set rows. d \<in> set (deposits s) \<and> d_uid d = uid
              \<and> (\<exists>n. d_note d = Some n \<and> \<not> prefix ''deposit_attempt_'' n
                     \<and> \<not> prefix ''gas_fee_attempt_'' n))
        \<and> (\<forall>d \<in> set (deposits s). d_uid d = uid
              \<and> not_like (d_note d) ''deposit_attempt_%''
              \<and> not_like (d_note d) ''gas_fee_attempt_%'' \<and> d \<notin> set rows \<longrightarrow>
              length rows = 20 \<and> (\<forall>r \<in> set rows. d_created_at d \<le> d_created_at r))"
  proof (intro exI[of _ ?rows] conjI ballI impI)
    show "list_deposits_sql uid s = (Inr ?rows, s)" by (rule run)
    show "sorted_wrt (\<lambda>a b. d_created_at b \<le> d_created_at a) ?rows"
      by (rule sorted_desc_order_desc_limit)
    show "length ?rows \<le> 20" by (rule order_desc_limit_bounds)
  next
    fix d assume "d \<in> set ?rows"
    with sub have k: "d \<in> set (deposits s)" "?keep d" by auto
    then show "d \<in> set (deposits s)" "d_uid d = uid" by simp_all
    from nt[OF k(2)] show "\<exists>n. d_note d = Some n \<and> \<not> prefix ''deposit_attempt_'' n
                     \<and> \<not> prefix ''gas_fee_attempt_'' n" .
  next
    fix d assume d: "d \<in> set (deposits s)" and "d_uid d = uid
              \<and> not_like (d_note d) ''deposit_attempt_%''
              \<and> not_like (d_note d) ''gas_fee_attempt_%'' \<and> d \<notin> set ?rows"
    then have "?keep d" "d \<notin> set ?rows" by simp_all
    from recent[OF d this] show "length ?rows = 20"
      and "\<And>r. r \<in> set ?rows \<Longrightarrow> d_created_at d \<le> d_created_at r" by simp_all
  qed
next
  let ?rows = "order_desc_limit 20 (filter (\<lambda>d. d_uid d = uid) (deposits s))"
  have run: "list_deposits_fn uid s = (Inr ?rows, s)"
    using assms by (simp add: list_deposits_fn_def)
  have sub: "set ?rows \<subseteq> set (filter (\<lambda>d. d_uid d = uid) (deposits s))"
    by (rule order_desc_limit_bounds)
  have recent: "length ?rows = 20 \<and> (\<forall>r \<in> set ?rows. d_created_at d \<le> d_created_at r)"
    if "d \<in> set (deposits s)" "d_uid d = uid" "d \<notin> set ?rows" for d
    using that by (intro order_desc_limit_most_recent) simp_all
  show "\<exists>rows. list_deposits_fn uid s = (Inr rows, s)
        \<and> sorted_wrt (\<lambda>a b. d_created_at b \<le> d_created_at a) rows
        \<and> length rows \<le> 20
        \<and> (\<forall>d \<in> set rows. d \<in> set (deposits s) \<and> d_uid d = uid)
        \<and> (\<forall>d \<in> set (deposits s). d_uid d = uid \<and> d \<notin> set rows \<longrightarrow>
              length rows = 20 \<and> (\<forall>r \<in> set rows. d_created_at d \<le> d_created_at r))"
  proof (intro exI[of _ ?rows] conjI ballI impI)
    show "list_deposits_fn uid s = (Inr ?rows, s)" by (rule run)
    show "sorted_wrt (\<lambda>a b. d_created_at b \<le> d_created_at a) ?rows"
      by (rule sorted_desc_order_desc_limit)
    show "length ?rows \<le> 20" by (rule order_desc_limit_bounds)
  next
    fix d assume "d \<in> set ?rows"
    with sub show "d \<in> set (deposits s)" "d_uid d = uid" by auto
  next
    fix d assume d: "d \<in> set (deposits s)" and "d_uid d = uid \<and> d \<notin> set ?rows"
    then have "d_uid d = uid" "d \<notin> set ?rows" by simp_all
    from recent[OF d this] show "length ?rows = 20"
      and "\<And>r. r \<in> set ?rows \<Longrightarrow> d_created_at d \<le> d_created_at r" by simp_all
  qed
qed

lemma listing_store_sql:
  "list_deposits_sql ''u1'' listing_store =
     (Inr [\<lparr>d_id = 3, d_uid = ''u1'', amount_usd = - 5, d_note = Some ''gas_fee'', d_created_at = 4\<rparr>,
           \<lparr>d_id = 0, d_uid = ''u1'', amount_usd = 0, d_note = Some ''default'', d_created_at = 1\<rparr>],
      listing_store)"
  by (simp add: list_deposits_sql_def query_def query_ok_deposits listing_store_def
      order_desc_limit_def not_like_def)

theorem C7_witness:
  "''u1'' \<noteq> []
   \<and> list_deposits_sql ''u1'' listing_store =
     (Inr [\<lparr>d_id = 3, d_uid = ''u1'', amount_usd = - 5, d_note = Some ''gas_fee'', d_created_at = 4\<rparr>,
           \<lparr>d_id = 0, d_uid = ''u1'', amount_usd = 0, d_note = Some ''default'', d_created_at = 1\<rparr>],
      listing_store)
   \<and> (\<exists>rows. list_deposits_fn ''u1'' listing_store = (Inr rows, listing_store)
        \<and> sorted_wrt (\<lambda>a b. d_created_at b \<le> d_created_at a) rows \<and> length rows \<le> 20)"
proof -
  have ne: "''u1'' \<noteq> []" by simp
  from C7_deposit_listing[OF ne, of listing_store, THEN conjunct2]
  have "\<exists>rows. list_deposits_fn ''u1'' listing_store = (Inr rows, listing_store)
        \<and> sorted_wrt (\<lambda>a b. d_created_at b \<le> d_created_at a) rows \<and> length rows \<le> 20"
    by blast
  with ne listing_store_sql show ?thesis by blast
qed

section \<open>Properties of the stock update\<close>

lemma query_not_ok_stocks:
  "\<not> query_ok ''stocks''
       [''company'', ''current_price'', ''percentage_change'', ''direction'', ''updated_at'']"
  by (simp add: query_ok_def initDb_schema_def)

text \<open>
  Claim C8 against the code. On the schema that \<^verbatim>\<open>initDb\<close> creates, the table
  \<^verbatim>\<open>stocks\<close> has the columns \<^verbatim>\<open>id, symbol, name, data, created_at\<close>, so the upsert of
  the relational handler is rejected: the update of Acme from 100 by 10 percent up ends
  in the \<^verbatim>\<open>catch\<close> branch and stores nothing. The document-store handler, on the same
  request, stores 110 under the key Acme and answers 110.00.
\<close>

theorem C8_relational_stock_update_fails:
  "stocks_update_sql ADMIN_KEY (Some ADMIN_KEY) acme_req now s = (Inl StoreFailure, s)
   \<and> stocks_update_fn ADMIN_KEY (Some ADMIN_KEY) acme_req now empty_store
      = (Inr 110, empty_store\<lparr>stocks := [\<lparr>company = ''Acme'', current_price = 110,
            percentage_change = 10, direction = ''up'', s_updated_at = now\<rparr>]\<rparr>)"
  by (simp add: stocks_update_sql_def stocks_update_fn_def stocks_update_validate_def acme_req_def
      query_def query_not_ok_stocks bind_io_def return_io_def fail_io_def stock_upsert_def
      upsert_def empty_store_def newPrice_def toFixed2_def)

text \<open>No request to the relational handler stores a quote.\<close>

lemma stocks_update_sql_never_stores:
  "\<exists>e. stocks_update_sql ADMIN_KEY key rq now s = (Inl e, s)"
  by (auto simp: stocks_update_sql_def query_def query_not_ok_stocks bind_io_def fail_io_def
      split: sum.splits)

text \<open>The document-store handler stores the product itself, under the company as key, and
  rounds only its answer.\<close>

lemma stocks_update_fn_stores_full_precision:
  assumes "st_company rq = Some c" "st_currentPrice rq = Some price" "st_percentage rq = Some pct"
    "st_direction rq = Some dir" "c \<noteq> []" "0 < price" "0 \<le> pct" "dir = ''up'' \<or> dir = ''down''"
  shows "\<exists>s'. stocks_update_fn ADMIN_KEY (Some ADMIN_KEY) rq now s
      = (Inr (toFixed2 (newPrice price pct dir)), s')
     \<and> map_option current_price (find (\<lambda>r. company r = c) (stocks s'))
        = Some (if dir = ''up'' then price * (1 + pct / 100) else price * (1 - pct / 100))"
proof -
  let ?q = "\<lparr>company = c, current_price = newPrice price pct dir, percentage_change = pct,
             direction = dir, s_updated_at = now\<rparr>"
  have "find (\<lambda>r. company r = c) (upsert (\<lambda>r. company r = c) (\<lambda>r. ?q) ?q (stocks s)) =
      Some (case find (\<lambda>r. company r = c) (stocks s) of None \<Rightarrow> ?q | Some r \<Rightarrow> ?q)"
    by (rule find_upsert_key) simp_all
  then show ?thesis
    using assms
    by (auto simp: stocks_update_fn_def stocks_update_validate_def bind_io_def return_io_def
        stock_upsert_def newPrice_def split: option.splits)
qed

end
